theory Spec2Isabelle
  imports Complex_Main
begin

section \<open>Numbers and three.js vectors\<close>

text \<open>
  The simulation is JavaScript on top of three.js. A JavaScript number is modelled as a
  \<^typ>\<open>real\<close>: the arithmetic is the exact one, so rounding, overflow to Infinity, NaN and
  underflow are outside the model. Where a step divides by a mass, the theorem about
  the step carries the hypothesis that the mass is not zero (JavaScript yields Infinity
  or NaN there and raises nothing; HOL's \<open>x / 0 = 0\<close> is not what the program computes).

  \<open>THREE.Vector3\<close> is an object with the fields \<open>x\<close>, \<open>y\<close>, \<open>z\<close>. Its mutating methods
  (\<open>add\<close>, \<open>sub\<close>, \<open>subVectors\<close>, \<open>multiplyScalar\<close>, \<open>divideScalar\<close>, \<open>normalize\<close>,
  \<open>applyQuaternion\<close>) assign the fields of \<open>this\<close> and return \<open>this\<close>. Each function below
  gives the fields of \<open>this\<close> after the call; which object is \<open>this\<close> is tracked by the caller
  (by a store in \<open>handleCollision\<close>, where one object is divided twice).
\<close>

datatype Vector3 = Vector3 (vx: real) (vy: real) (vz: real)

definition add :: "Vector3 \<Rightarrow> Vector3 \<Rightarrow> Vector3" where
  "add this v = Vector3 (vx this + vx v) (vy this + vy v) (vz this + vz v)"

definition sub :: "Vector3 \<Rightarrow> Vector3 \<Rightarrow> Vector3" where
  "sub this v = Vector3 (vx this - vx v) (vy this - vy v) (vz this - vz v)"

definition subVectors :: "Vector3 \<Rightarrow> Vector3 \<Rightarrow> Vector3" where
  \<comment> \<open>\<open>this.subVectors(a, b)\<close>: the old fields of \<open>this\<close> are overwritten.\<close>
  "subVectors a b = Vector3 (vx a - vx b) (vy a - vy b) (vz a - vz b)"

definition multiplyScalar :: "Vector3 \<Rightarrow> real \<Rightarrow> Vector3" where
  "multiplyScalar this scalar = Vector3 (vx this * scalar) (vy this * scalar) (vz this * scalar)"

definition divideScalar :: "Vector3 \<Rightarrow> real \<Rightarrow> Vector3" where
  \<comment> \<open>three.js: \<open>return this.multiplyScalar(1 / scalar)\<close>.\<close>
  "divideScalar this scalar = multiplyScalar this (1 / scalar)"

definition dot :: "Vector3 \<Rightarrow> Vector3 \<Rightarrow> real" where
  "dot this v = vx this * vx v + vy this * vy v + vz this * vz v"

definition length3 :: "Vector3 \<Rightarrow> real" where
  \<comment> \<open>\<open>Vector3.length()\<close>.\<close>
  "length3 this = sqrt (vx this * vx this + vy this * vy this + vz this * vz this)"

definition normalize :: "Vector3 \<Rightarrow> Vector3" where
  \<comment> \<open>three.js: \<open>return this.divideScalar(this.length() || 1)\<close>; a zero length is falsy.\<close>
  "normalize this = divideScalar this (if length3 this = 0 then 1 else length3 this)"

definition distanceTo :: "Vector3 \<Rightarrow> Vector3 \<Rightarrow> real" where
  "distanceTo this v =
     (let dx = vx this - vx v; dy = vy this - vy v; dz = vz this - vz v
      in sqrt (dx * dx + dy * dy + dz * dz))"

subsection \<open>Double precision\<close>

text \<open>
  Where the program compares a computed number with zero, the outcome depends on the
  rounding, so the rest test of the wind model is evaluated in IEEE 754 binary64
  arithmetic. \<open>fl x\<close> is the double nearest to the real \<open>x\<close>: round to nearest, ties to
  even, with the subnormal numbers below \<open>2 powr -1022\<close> (spacing \<open>2 powr -1074\<close>). The
  exponent is not bounded above: overflow to Infinity, NaN and the sign of zero are
  outside the model. An
  operation of the program on doubles is \<open>fl\<close> of the exact result; \<open>Math.sqrt\<close> is the
  correctly rounded square root, and \<open>Math.sin\<close> is taken as the correctly rounded sine
  (ECMAScript fixes \<open>Math.sin(0) = 0\<close> and leaves the last bit elsewhere to the engine).
\<close>

definition rne :: "real \<Rightarrow> int" where
  \<comment> \<open>The nearest integer, a tie going to the even one.\<close>
  "rne q =
     (let f = \<lfloor>q\<rfloor>; r = q - of_int f
      in if r < 1 / 2 then f
         else if 1 / 2 < r then f + 1
         else if even f then f else f + 1)"

definition exponent :: "real \<Rightarrow> int" where
  "exponent x = max (- 1022) \<lfloor>log 2 \<bar>x\<bar>\<rfloor>"

definition ulp :: "real \<Rightarrow> real" where
  \<comment> \<open>The spacing of the doubles around \<open>x\<close>: 53 significant bits.\<close>
  "ulp x = 2 powr (of_int (exponent x) - 52)"

definition fl :: "real \<Rightarrow> real" where
  "fl x = (if x = 0 then 0 else sgn x * (of_int (rne (\<bar>x\<bar> / ulp x)) * ulp x))"

definition Math_PI :: real where
  "Math_PI = fl pi"

definition Math_sin :: "real \<Rightarrow> real" where
  "Math_sin x = fl (sin x)"

definition add_double :: "Vector3 \<Rightarrow> Vector3 \<Rightarrow> Vector3" where
  "add_double this v = Vector3 (fl (vx this + vx v)) (fl (vy this + vy v)) (fl (vz this + vz v))"

definition multiplyScalar_double :: "Vector3 \<Rightarrow> real \<Rightarrow> Vector3" where
  "multiplyScalar_double this scalar =
     Vector3 (fl (vx this * scalar)) (fl (vy this * scalar)) (fl (vz this * scalar))"

definition length_double :: "Vector3 \<Rightarrow> real" where
  \<comment> \<open>\<open>Math.sqrt(this.x * this.x + this.y * this.y + this.z * this.z)\<close>.\<close>
  "length_double this =
     fl (sqrt (fl (fl (fl (vx this * vx this) + fl (vy this * vy this))
                   + fl (vz this * vz this))))"

subsection \<open>Objects\<close>

text \<open>
  An \<open>Object3D\<close> (the loaded glTF scene, the sphere's mesh) carries a position and an
  orientation. The programs only ever write \<open>rotation.y\<close> of an object created with the
  identity orientation, so the orientation is the yaw angle; three.js keeps the object's
  quaternion equal to the one of the Euler angles \<open>(0, rotation.y, 0)\<close>. The wind model
  leaves the scale at \<open>(1, 1, 1)\<close> and adds the scene to the root, so the world matrix is
  the object's own.
\<close>

datatype Quaternion = Quaternion (qx: real) (qy: real) (qz: real) (qw: real)

record Object3D =
  position :: Vector3
  rotation_y :: real

definition quaternion :: "Object3D \<Rightarrow> Quaternion" where
  \<comment> \<open>\<open>Quaternion.setFromEuler\<close> at the angles \<open>(0, rotation.y, 0)\<close>, order XYZ.\<close>
  "quaternion obj = Quaternion 0 (sin (rotation_y obj / 2)) 0 (cos (rotation_y obj / 2))"

definition applyQuaternion :: "Vector3 \<Rightarrow> Quaternion \<Rightarrow> Vector3" where
  "applyQuaternion this q =
     (let tx = 2 * (qy q * vz this - qz q * vy this);
          ty = 2 * (qz q * vx this - qx q * vz this);
          tz = 2 * (qx q * vy this - qy q * vx this)
      in Vector3 (vx this + qw q * tx + qy q * tz - qz q * ty)
                 (vy this + qw q * ty + qz q * tx - qx q * tz)
                 (vz this + qw q * tz + qx q * ty - qy q * tx))"

definition getWorldDirection :: "Object3D \<Rightarrow> Vector3" where
  \<comment> \<open>The third column of the rotation matrix of the quaternion (\<open>Matrix4.compose\<close> at
      scale 1), normalized.\<close>
  "getWorldDirection obj =
     (let q = quaternion obj;
          x2 = qx q + qx q; y2 = qy q + qy q; z2 = qz q + qz q;
          xx = qx q * x2; yy = qy q * y2;
          xz = qx q * z2; yz = qy q * z2;
          wx = qw q * x2; wy = qw q * y2
      in normalize (Vector3 (xz + wy) (yz - wx) (1 - (xx + yy))))"

datatype js_error = TypeError

section \<open>The wind model (main.js)\<close>

text \<open>
  \<open>main.js\<close> declares \<open>GRAVITY_ACCELERATION\<close> and the module variables \<open>windDirection\<close>
  and \<open>sailAngle\<close>, which the key handlers write; the functions that read the two
  variables take them as arguments here. The file holds the program twice: the second
  copy differs from the first in its comments, its console output and the height at which
  the scene is placed (\<open>-10\<close> for \<open>0\<close>). The first copy is the one modelled.
\<close>

definition GRAVITY_ACCELERATION :: real where
  "GRAVITY_ACCELERATION = 9.81"

record Forces =
  mass :: real
  volumeDisplaced :: real
  fluidDensity :: real
  gravity :: Vector3
  buoyancy :: Vector3
  dragCoefficient :: real
  windForce :: Vector3

definition computeBuoyancy :: "real \<Rightarrow> real \<Rightarrow> Vector3" where
  \<comment> \<open>Reads \<open>this.fluidDensity\<close> and \<open>this.volumeDisplaced\<close>, set before the call.\<close>
  "computeBuoyancy fluidDensity' volumeDisplaced' =
     Vector3 0 (fluidDensity' * volumeDisplaced' * GRAVITY_ACCELERATION) 0"

definition Forces_constructor ::
  "real \<Rightarrow> real \<Rightarrow> real \<Rightarrow> real option \<Rightarrow> Vector3 option \<Rightarrow> js_error + Forces" where
  \<comment> \<open>The two last parameters have the defaults \<open>0.1\<close> and \<open>new THREE.Vector3(0, 0, 0)\<close>.
      The body holds assignments only: no branch throws.\<close>
  "Forces_constructor mass' volumeDisplaced' fluidDensity' dragCoefficient' windForce' =
     Inr \<lparr> mass = mass',
           volumeDisplaced = volumeDisplaced',
           fluidDensity = fluidDensity',
           gravity = Vector3 0 (- GRAVITY_ACCELERATION * mass') 0,
           buoyancy = computeBuoyancy fluidDensity' volumeDisplaced',
           dragCoefficient = (case dragCoefficient' of None \<Rightarrow> 0.1 | Some d \<Rightarrow> d),
           windForce = (case windForce' of None \<Rightarrow> Vector3 0 0 0 | Some w \<Rightarrow> w) \<rparr>"

definition computeAirResistance :: "Forces \<Rightarrow> Vector3 \<Rightarrow> Vector3" where
  "computeAirResistance this velocity' = multiplyScalar velocity' (- dragCoefficient this)"

definition computeWaterResistance :: "Forces \<Rightarrow> Vector3 \<Rightarrow> Vector3" where
  "computeWaterResistance this velocity' = multiplyScalar velocity' (- dragCoefficient this * 2)"

definition computeWindForce :: "Vector3 \<Rightarrow> real \<Rightarrow> Vector3" where
  "computeWindForce windDirection sailAngle =
     (let sailAngle1 = max 0 (min sailAngle (pi / 2));
          windEffectiveness = \<bar>sin sailAngle1\<bar>
      in multiplyScalar windDirection windEffectiveness)"

definition computeWindForce_part_000 :: "Vector3 \<Rightarrow> real \<Rightarrow> Vector3" where
  \<comment> \<open>The same method in the copy \<open>src/unnamed/part_000\<close>: cosine, no clamp.\<close>
  "computeWindForce_part_000 windDirection sailAngle =
     (let windEffectiveness = \<bar>cos sailAngle\<bar>
      in multiplyScalar windDirection windEffectiveness)"

definition computeNetForce :: "Forces \<Rightarrow> Vector3 \<Rightarrow> Vector3 \<Rightarrow> real \<Rightarrow> Vector3" where
  "computeNetForce this velocity' windDirection sailAngle =
     (let airResistance = computeAirResistance this velocity';
          waterResistance = computeWaterResistance this velocity';
          windForce' = computeWindForce windDirection sailAngle;
          netForce = Vector3 0 0 0
      in add (add (add (add (add netForce (gravity this)) (buoyancy this)) windForce')
                airResistance) waterResistance)"

definition computeAcceleration :: "Forces \<Rightarrow> Vector3 \<Rightarrow> Vector3" where
  "computeAcceleration this netForce = divideScalar netForce (mass this)"

text \<open>
  \<open>isAtRest\<close> compares two computed lengths with zero. It is the program in double
  arithmetic: the same methods as above with every operation rounded. (\<open>Math.max\<close>,
  \<open>Math.min\<close>, \<open>Math.abs\<close> and the unary minus are exact.)
\<close>

definition Forces_double :: "real \<Rightarrow> real \<Rightarrow> real \<Rightarrow> Forces" where
  \<comment> \<open>What \<open>new Forces(mass, volumeDisplaced, fluidDensity)\<close> holds in double arithmetic,
      the two last parameters at their defaults.\<close>
  "Forces_double mass' volumeDisplaced' fluidDensity' =
     \<lparr> mass = mass',
       volumeDisplaced = volumeDisplaced',
       fluidDensity = fluidDensity',
       gravity = Vector3 0 (fl (- fl 9.81 * mass')) 0,
       buoyancy = Vector3 0 (fl (fl (fluidDensity' * volumeDisplaced') * fl 9.81)) 0,
       dragCoefficient = fl 0.1,
       windForce = Vector3 0 0 0 \<rparr>"

definition computeAirResistance_double :: "Forces \<Rightarrow> Vector3 \<Rightarrow> Vector3" where
  "computeAirResistance_double this velocity' =
     multiplyScalar_double velocity' (- dragCoefficient this)"

definition computeWaterResistance_double :: "Forces \<Rightarrow> Vector3 \<Rightarrow> Vector3" where
  "computeWaterResistance_double this velocity' =
     multiplyScalar_double velocity' (fl (- dragCoefficient this * 2))"

definition computeWindForce_double :: "Vector3 \<Rightarrow> real \<Rightarrow> Vector3" where
  "computeWindForce_double windDirection sailAngle =
     (let sailAngle1 = max 0 (min sailAngle (fl (Math_PI / 2)));
          windEffectiveness = \<bar>Math_sin sailAngle1\<bar>
      in multiplyScalar_double windDirection windEffectiveness)"

definition computeNetForce_double :: "Forces \<Rightarrow> Vector3 \<Rightarrow> Vector3 \<Rightarrow> real \<Rightarrow> Vector3" where
  "computeNetForce_double this velocity' windDirection sailAngle =
     (let airResistance = computeAirResistance_double this velocity';
          waterResistance = computeWaterResistance_double this velocity';
          windForce' = computeWindForce_double windDirection sailAngle;
          netForce = Vector3 0 0 0
      in add_double (add_double (add_double (add_double (add_double netForce (gravity this))
                (buoyancy this)) windForce') airResistance) waterResistance)"

definition isAtRest :: "Forces \<Rightarrow> Vector3 \<Rightarrow> real \<Rightarrow> Vector3 \<Rightarrow> bool" where
  \<comment> \<open>\<open>isAtRest(velocity)\<close>; the arguments in the middle are the module variables.\<close>
  "isAtRest this windDirection sailAngle velocity' =
     (let netForce = computeNetForce_double this velocity' windDirection sailAngle
      in length_double netForce = 0 \<and> length_double velocity' = 0)"

record WindBoat =
  mass :: real
  volumeDisplaced :: real
  fluidDensity :: real
  forces :: Forces
  velocity :: Vector3
  acceleration :: Vector3
  rotationSpeed :: real
  boat :: "Object3D option"

definition WindBoat_constructor :: "js_error + WindBoat" where
  \<comment> \<open>\<open>new Boat()\<close> of main.js up to the call of the loader; \<open>this.boat = null\<close>.\<close>
  "WindBoat_constructor =
     (case Forces_constructor 500 2 1000 None None of
        Inl e \<Rightarrow> Inl e
      | Inr f \<Rightarrow>
          Inr \<lparr> mass = 500, volumeDisplaced = 2, fluidDensity = 1000, forces = f,
                velocity = Vector3 0 0 0, acceleration = Vector3 0 0 0,
                rotationSpeed = 0, boat = None \<rparr>)"

definition WindBoat_onLoad :: "Vector3 \<Rightarrow> real \<Rightarrow> WindBoat \<Rightarrow> WindBoat" where
  \<comment> \<open>The loader's callback: the scene is placed at the origin with \<open>rotation.y = Math.PI\<close>
      and stored in \<open>this.boat\<close>; a boat found at rest has its velocity set to zero.\<close>
  "WindBoat_onLoad windDirection sailAngle this =
     (let this1 = this\<lparr> boat := Some \<lparr> position = Vector3 0 0 0, rotation_y = pi \<rparr> \<rparr>
      in if isAtRest (forces this1) windDirection sailAngle (WindBoat.velocity this1)
         then this1\<lparr> WindBoat.velocity := Vector3 0 0 0 \<rparr>
         else this1)"

definition WindBoat_update :: "Vector3 \<Rightarrow> real \<Rightarrow> real \<Rightarrow> WindBoat \<Rightarrow> WindBoat" where
  \<comment> \<open>\<open>Boat.update(deltaTime)\<close> of main.js; the first two arguments are the module
      variables. The console output is left out. The step is computed over the reals;
      only the rest test is the rounded one.\<close>
  "WindBoat_update windDirection sailAngle deltaTime this =
     (case boat this of
        None \<Rightarrow> this
      | Some scene \<Rightarrow>
          (let netForce = computeNetForce (forces this) (WindBoat.velocity this) windDirection sailAngle;
               acceleration1 = computeAcceleration (forces this) netForce;
               velocity1 =
                 (if \<not> isAtRest (forces this) windDirection sailAngle (WindBoat.velocity this)
                  then add (WindBoat.velocity this) (multiplyScalar acceleration1 deltaTime)
                  else WindBoat.velocity this);
               direction = getWorldDirection scene;
               direction1 = multiplyScalar direction (length3 velocity1 * deltaTime);
               scene1 = scene\<lparr> position := add (position scene) direction1 \<rparr>;
               scene2 = scene1\<lparr> rotation_y := rotation_y scene1 + rotationSpeed this * deltaTime \<rparr>
           in this\<lparr> WindBoat.acceleration := acceleration1,
                    WindBoat.velocity := velocity1,
                    boat := Some scene2 \<rparr>))"

section \<open>The thrust model (src/unnamed/part_001)\<close>

definition g :: real where
  "g = 9.8"

record Sphere =
  radius :: real
  mass :: real
  velocity :: Vector3
  acceleration :: Vector3
  object :: Object3D

record ThrustBoat =
  mass :: real
  volume :: real
  waterDensity :: real
  inertia :: real
  angularVelocity :: real
  torque :: real
  thrust :: real
  rotationSpeed :: real
  radius :: real
  collided :: bool
  boat :: "Object3D option"
  velocity :: "Vector3 option"
  acceleration :: "Vector3 option"

definition ThrustBoat_constructor :: ThrustBoat where
  \<comment> \<open>\<open>new Boat()\<close> up to the call of the loader: \<open>this.boat\<close>, \<open>this.velocity\<close> and
      \<open>this.acceleration\<close> are still undefined.\<close>
  "ThrustBoat_constructor =
     \<lparr> mass = 3000, volume = 1.5, waterDensity = 1000,
       inertia = (1 / 12) * 3000 * (2 ^ 2 + 2 ^ 2),
       angularVelocity = 0, torque = 0, thrust = 0, rotationSpeed = 0, radius = 5,
       collided = False, boat = None, velocity = None, acceleration = None \<rparr>"

definition ThrustBoat_onLoad :: "ThrustBoat \<Rightarrow> ThrustBoat" where
  \<comment> \<open>The loader's callback; the scale of the scene is not modelled.\<close>
  "ThrustBoat_onLoad this =
     this\<lparr> boat := Some \<lparr> position = Vector3 (-10) (-4) (-10), rotation_y = 0 \<rparr>,
            ThrustBoat.velocity := Some (Vector3 0 0 0),
            ThrustBoat.acceleration := Some (Vector3 0 0 0) \<rparr>"

definition Sphere_constructor :: "Vector3 \<Rightarrow> real \<Rightarrow> real \<Rightarrow> Sphere" where
  "Sphere_constructor position' radius' mass' =
     \<lparr> Sphere.radius = radius', Sphere.mass = mass',
       Sphere.velocity = Vector3 0 0 0, Sphere.acceleration = Vector3 0 0 0,
       object = \<lparr> position = position', rotation_y = 0 \<rparr> \<rparr>"

definition setMass :: "real \<Rightarrow> ThrustBoat \<Rightarrow> js_error + ThrustBoat" where
  \<comment> \<open>Two assignments: no branch throws.\<close>
  "setMass newMass this =
     Inr (this\<lparr> ThrustBoat.mass := newMass,
                inertia := (1 / 12) * newMass * (2 ^ 2 + 2 ^ 2) \<rparr>)"

subsection \<open>Collision\<close>

text \<open>
  \<open>handleCollision\<close> calls mutating methods on the objects it has just computed with, so
  it is run on a store of the \<open>Vector3\<close> objects it touches: the positions and velocities
  of the two bodies (four distinct objects, each made by its own \<open>new\<close>) and the objects
  the function allocates. A variable of the source is a reference into the store.
  \<open>invoke r f\<close> is a call of a mutating method on the object at \<open>r\<close>: the fields become
  \<open>f\<close> of the old fields and the call returns \<open>r\<close> itself.
\<close>

datatype ref = ThisPosition | OtherPosition | ThisVelocity | OtherVelocity | New nat

type_synonym store = "ref \<Rightarrow> Vector3"

definition invoke :: "ref \<Rightarrow> (Vector3 \<Rightarrow> Vector3) \<Rightarrow> store \<Rightarrow> ref \<times> store" where
  "invoke this f h = (this, h(this := f (h this)))"

definition handleCollision_store :: "real \<Rightarrow> real \<Rightarrow> store \<Rightarrow> store" where
  \<comment> \<open>The body of \<open>handleCollision\<close>; the arguments are \<open>this.mass\<close> and
      \<open>otherObject.mass\<close>. \<open>New 0\<close> and \<open>New 1\<close> are the two \<open>new THREE.Vector3()\<close>.\<close>
  "handleCollision_store this_mass other_mass h0 =
     (let (normal0, h1) = invoke (New 0) (\<lambda>_. subVectors (h0 ThisPosition) (h0 OtherPosition)) h0;
          (normal, h2) = invoke normal0 normalize h1;
          (relativeVelocity, h3) =
             invoke (New 1) (\<lambda>_. subVectors (h2 ThisVelocity) (h2 OtherVelocity)) h2;
          velocityAlongNormal = dot (h3 relativeVelocity) (h3 normal)
      in if velocityAlongNormal > 0 then h3
         else
           (let restitution = 0.7;
                impulseScalar =
                  - (1 + restitution) * velocityAlongNormal / (1 / this_mass + 1 / other_mass);
                (impulse, h4) = invoke normal (\<lambda>v. multiplyScalar v impulseScalar) h3;
                (arg1, h5) = invoke impulse (\<lambda>v. divideScalar v this_mass) h4;
                (_, h6) = invoke ThisVelocity (\<lambda>v. add v (h5 arg1)) h5;
                (arg2, h7) = invoke impulse (\<lambda>v. divideScalar v other_mass) h6;
                (_, h8) = invoke OtherVelocity (\<lambda>v. sub v (h7 arg2)) h7
            in h8))"

definition handleCollision :: "ThrustBoat \<Rightarrow> Sphere \<Rightarrow> js_error + ThrustBoat \<times> Sphere" where
  \<comment> \<open>Reading \<open>this.boat.position\<close> or a field of \<open>this.velocity\<close> while they are undefined
      throws a TypeError. Only the two velocities are written.\<close>
  "handleCollision this otherObject =
     (case boat this of
        None \<Rightarrow> Inl TypeError
      | Some scene \<Rightarrow>
          (case ThrustBoat.velocity this of
             None \<Rightarrow> Inl TypeError
           | Some v \<Rightarrow>
               (let h0 = (\<lambda>r. case r of
                            ThisPosition \<Rightarrow> position scene
                          | OtherPosition \<Rightarrow> position (object otherObject)
                          | ThisVelocity \<Rightarrow> v
                          | OtherVelocity \<Rightarrow> Sphere.velocity otherObject
                          | New _ \<Rightarrow> Vector3 0 0 0);
                    h = handleCollision_store (ThrustBoat.mass this) (Sphere.mass otherObject) h0
                in Inr (this\<lparr> ThrustBoat.velocity := Some (h ThisVelocity) \<rparr>,
                        otherObject\<lparr> Sphere.velocity := h OtherVelocity \<rparr>))))"

definition checkCollision :: "ThrustBoat \<Rightarrow> Sphere \<Rightarrow> js_error + ThrustBoat \<times> Sphere" where
  "checkCollision this otherObject =
     (case boat this of
        None \<Rightarrow> Inl TypeError
      | Some scene \<Rightarrow>
          (let distance = distanceTo (position scene) (position (object otherObject));
               collisionDistance = ThrustBoat.radius this + 50 + Sphere.radius otherObject
           in if distance < collisionDistance
              then handleCollision (this\<lparr> collided := True \<rparr>) otherObject
              else Inr (this\<lparr> collided := False \<rparr>, otherObject)))"

fun handleCollision_times :: "nat \<Rightarrow> ThrustBoat \<Rightarrow> Sphere \<Rightarrow> js_error + ThrustBoat \<times> Sphere" where
  "handleCollision_times 0 this otherObject = Inr (this, otherObject)"
| "handleCollision_times (Suc n) this otherObject =
     (case handleCollision this otherObject of
        Inl e \<Rightarrow> Inl e
      | Inr (this1, otherObject1) \<Rightarrow> handleCollision_times n this1 otherObject1)"

subsection \<open>Integration\<close>

definition submergedVolume :: "ThrustBoat \<Rightarrow> Object3D \<Rightarrow> real" where
  "submergedVolume this scene = max 0 (volume this * (1 - vy (position scene) / 2))"

definition totalForce :: "ThrustBoat \<Rightarrow> Object3D \<Rightarrow> Vector3 \<Rightarrow> Vector3" where
  "totalForce this scene v =
     (let gravityForce = Vector3 0 (- ThrustBoat.mass this * g) 0;
          buoyancyForce = Vector3 0 (waterDensity this * submergedVolume this scene * g) 0;
          dragCoefficient' = 0.1;
          dragForce = multiplyScalar v (- dragCoefficient' * length3 v);
          thrustForce = applyQuaternion (Vector3 0 0 (thrust this)) (quaternion scene)
      in add (add (add (add (Vector3 0 0 0) gravityForce) buoyancyForce) dragForce) thrustForce)"

definition linearStep :: "real \<Rightarrow> ThrustBoat \<Rightarrow> Object3D \<Rightarrow> Vector3 \<Rightarrow> Vector3 \<times> Vector3 \<times> Vector3" where
  \<comment> \<open>Lines 67 to 83 of \<open>update\<close>: the new acceleration, the velocity and the position
      before the floor is applied.\<close>
  "linearStep deltaTime this scene v =
     (let acceleration1 = divideScalar (totalForce this scene v) (ThrustBoat.mass this);
          velocity1 = add v (multiplyScalar acceleration1 deltaTime);
          linearDamping = 0.98;
          velocity2 = (if thrust this = 0 then multiplyScalar velocity1 linearDamping else velocity1);
          position1 = add (position scene) (multiplyScalar velocity2 deltaTime)
      in (acceleration1, velocity2, position1))"

definition floorClamp :: "Vector3 \<times> Vector3 \<Rightarrow> Vector3 \<times> Vector3" where
  \<comment> \<open>Lines 85 to 88, on the pair of the velocity and the position.\<close>
  "floorClamp vp =
     (case vp of (velocity2, position1) \<Rightarrow>
        if vy position1 < - 4
        then (Vector3 (vx velocity2) 0 (vz velocity2), Vector3 (vx position1) (- 4) (vz position1))
        else (velocity2, position1))"

definition ThrustBoat_update :: "real \<Rightarrow> ThrustBoat \<Rightarrow> js_error + ThrustBoat" where
  \<comment> \<open>\<open>Boat.update(deltaTime)\<close>; the three telemetry texts written at its end are left out.\<close>
  "ThrustBoat_update deltaTime this =
     (case boat this of
        None \<Rightarrow> Inr this
      | Some scene \<Rightarrow>
          (case ThrustBoat.velocity this of
             None \<Rightarrow> Inl TypeError
           | Some v \<Rightarrow>
               (case ThrustBoat.acceleration this of
                  None \<Rightarrow> Inl TypeError
                | Some a \<Rightarrow>
                    (let (acceleration1, velocity2, position1) = linearStep deltaTime this scene v;
                         (velocity3, position2) = floorClamp (velocity2, position1);
                         armLength = 1;
                         torque1 = thrust this * armLength * sin (ThrustBoat.rotationSpeed this);
                         angularAcceleration = torque1 / inertia this;
                         angularVelocity1 = angularVelocity this + angularAcceleration * deltaTime;
                         angularDampingFactor = 0.95;
                         angularVelocity2 = angularVelocity1 * angularDampingFactor;
                         scene1 = scene\<lparr> position := position2,
                                         rotation_y := rotation_y scene + angularVelocity2 * deltaTime \<rparr>
                     in Inr (this\<lparr> ThrustBoat.acceleration := Some acceleration1,
                                    ThrustBoat.velocity := Some velocity3,
                                    torque := torque1,
                                    angularVelocity := angularVelocity2,
                                    boat := Some scene1 \<rparr>)))))"

section \<open>Quantities of the specification\<close>

definition clamp :: "real \<Rightarrow> real \<Rightarrow> real \<Rightarrow> real" where
  "clamp v lo hi = max lo (min hi v)"

definition submergedVolume_spec :: "real \<Rightarrow> real \<Rightarrow> real \<Rightarrow> real" where
  \<comment> \<open>The specification's words: \<open>baseVolume * clamp(1 - position.y / referenceDepth, 0, 1)\<close>.\<close>
  "submergedVolume_spec baseVolume referenceDepth y = baseVolume * clamp (1 - y / referenceDepth) 0 1"

definition momentumAlongNormal :: "real \<Rightarrow> Vector3 \<Rightarrow> real \<Rightarrow> Vector3 \<Rightarrow> Vector3 \<Rightarrow> real" where
  \<comment> \<open>The specification's words: \<open>mass(a) * velocity(a) + mass(b) * velocity(b)\<close>, projected
      on the collision normal.\<close>
  "momentumAlongNormal mass_a velocity_a mass_b velocity_b normal =
     dot (add (multiplyScalar velocity_a mass_a) (multiplyScalar velocity_b mass_b)) normal"

definition collisionNormal :: "Object3D \<Rightarrow> Sphere \<Rightarrow> Vector3" where
  \<comment> \<open>\<open>normalize(position(a) - position(b))\<close>.\<close>
  "collisionNormal scene otherObject =
     normalize (subVectors (position scene) (position (object otherObject)))"

definition velocityAlongNormal :: "Object3D \<Rightarrow> Vector3 \<Rightarrow> Sphere \<Rightarrow> real" where
  \<comment> \<open>\<open>dot(velocity(a) - velocity(b), normal)\<close>.\<close>
  "velocityAlongNormal scene v otherObject =
     dot (subVectors v (Sphere.velocity otherObject)) (collisionNormal scene otherObject)"

definition squares_underflow :: "Vector3 \<Rightarrow> bool" where
  \<comment> \<open>The square of every component is at most \<open>2 powr -1075\<close>, half the smallest double:
      every component is at most \<open>2 powr -537.5\<close>, about \<open>1.5e-162\<close>, in magnitude.\<close>
  "squares_underflow v \<longleftrightarrow>
     vx v * vx v \<le> 2 powr (- 1075) \<and> vy v * vy v \<le> 2 powr (- 1075)
     \<and> vz v * vz v \<le> 2 powr (- 1075)"

definition impulse_spec ::
  "real \<Rightarrow> real \<Rightarrow> Vector3 \<Rightarrow> Vector3 \<Rightarrow> real \<Rightarrow> Vector3 \<Rightarrow> Vector3 \<Rightarrow> Vector3" where
  \<comment> \<open>Steps 1, 2, 3 and 5 of the specification's \<open>resolve\<close> and the impulse of step 6.\<close>
  "impulse_spec restitution mass_a position_a velocity_a mass_b position_b velocity_b =
     (let normal = normalize (subVectors position_a position_b);
          relativeVelocity = subVectors velocity_a velocity_b;
          velocityAlongNormal' = dot relativeVelocity normal;
          impulseScalar =
            - (1 + restitution) * velocityAlongNormal' / (1 / mass_a + 1 / mass_b)
      in multiplyScalar normal impulseScalar)"

definition resolve_spec ::
  "real \<Rightarrow> real \<Rightarrow> Vector3 \<Rightarrow> Vector3 \<Rightarrow> real \<Rightarrow> Vector3 \<Rightarrow> Vector3 \<Rightarrow> Vector3 \<times> Vector3" where
  \<comment> \<open>The specification's \<open>resolve(a, b, restitution)\<close>, steps 1 to 6: the velocities of
      \<open>a\<close> and \<open>b\<close> after the call.\<close>
  "resolve_spec restitution mass_a position_a velocity_a mass_b position_b velocity_b =
     (let normal = normalize (subVectors position_a position_b);
          relativeVelocity = subVectors velocity_a velocity_b;
          velocityAlongNormal' = dot relativeVelocity normal
      in if velocityAlongNormal' > 0 then (velocity_a, velocity_b)
         else
           (let impulse =
                  impulse_spec restitution mass_a position_a velocity_a mass_b position_b velocity_b
            in (add velocity_a (divideScalar impulse mass_a),
                sub velocity_b (divideScalar impulse mass_b))))"

section \<open>States used as examples\<close>

definition WindBoat_start :: WindBoat where
  \<comment> \<open>The wind model's boat once constructed and loaded, under the initial wind
      \<open>(1, 0, 0)\<close> and sail angle \<open>Math.PI / 2\<close>.\<close>
  "WindBoat_start =
     \<lparr> WindBoat.mass = 500, WindBoat.volumeDisplaced = 2, WindBoat.fluidDensity = 1000,
       forces = \<lparr> Forces.mass = 500, Forces.volumeDisplaced = 2, Forces.fluidDensity = 1000,
                  gravity = Vector3 0 (- 4905) 0, buoyancy = Vector3 0 19620 0,
                  dragCoefficient = 0.1, windForce = Vector3 0 0 0 \<rparr>,
       WindBoat.velocity = Vector3 0 0 0, WindBoat.acceleration = Vector3 0 0 0,
       WindBoat.rotationSpeed = 0,
       WindBoat.boat = Some \<lparr> position = Vector3 0 0 0, rotation_y = pi \<rparr> \<rparr>"

definition scenario_drifting :: Vector3 where
  \<comment> \<open>The velocity \<open>new THREE.Vector3(1e-200, 0, 0)\<close>.\<close>
  "scenario_drifting = Vector3 (fl (1 / 10 ^ 200)) 0 0"

definition scenario_A :: ThrustBoat where
  \<comment> \<open>Body A of the specification's collision scenario: the loaded thrust boat after
      \<open>setMass(500)\<close>, at \<open>(0, 0, 150)\<close> with velocity \<open>(0, 0, -5)\<close>.\<close>
  "scenario_A = (ThrustBoat_onLoad ThrustBoat_constructor)
     \<lparr> ThrustBoat.mass := 500, inertia := (1 / 12) * 500 * (2 ^ 2 + 2 ^ 2),
       boat := Some \<lparr> position = Vector3 0 0 150, rotation_y = 0 \<rparr>,
       ThrustBoat.velocity := Some (Vector3 0 0 (- 5)) \<rparr>"

definition scenario_B :: Sphere where
  \<comment> \<open>Body B: the sphere that \<open>init\<close> creates, at rest.\<close>
  "scenario_B = Sphere_constructor (Vector3 0 0 100) 20 500"

definition scenario_separating :: ThrustBoat where
  \<comment> \<open>The same boat moving away from the sphere.\<close>
  "scenario_separating = scenario_A\<lparr> ThrustBoat.velocity := Some (Vector3 0 0 5) \<rparr>"


definition scenario_afloat :: Object3D where
  \<comment> \<open>A scene one unit above the water plane.\<close>
  "scenario_afloat = \<lparr> position = Vector3 0 1 0, rotation_y = 0 \<rparr>"

section \<open>Rounding to double\<close>

lemma rne_of_int: "rne (of_int k) = k"
  by (simp add: rne_def)

lemma rne_error: "\<bar>of_int (rne q) - q\<bar> \<le> 1 / 2"
proof -
  have "of_int \<lfloor>q\<rfloor> \<le> q" "q < of_int \<lfloor>q\<rfloor> + 1" by linarith+
  then show ?thesis
    by (auto simp: rne_def Let_def)
qed

lemma rne_nonneg: "0 \<le> q \<Longrightarrow> 0 \<le> rne q"
  by (auto simp: rne_def Let_def)

lemma rne_eq_0_iff: "0 \<le> q \<Longrightarrow> rne q = 0 \<longleftrightarrow> q \<le> 1 / 2"
proof
  assume "0 \<le> q" "rne q = 0"
  with rne_error [of q] show "q \<le> 1 / 2" by simp
next
  assume q: "0 \<le> q" "q \<le> 1 / 2"
  then have "\<lfloor>q\<rfloor> = 0" by linarith
  with q show "rne q = 0" by (auto simp: rne_def Let_def)
qed

lemma ulp_pos: "0 < ulp x"
  by (simp add: ulp_def)

lemma ulp_ge: "2 powr (- 1074) \<le> ulp x"
proof -
  have "(- 1074 :: real) \<le> of_int (exponent x) - 52"
    by (simp add: exponent_def)
  then show ?thesis
    unfolding ulp_def by (simp only: powr_le_cancel_iff) 
qed

lemma exponent_minus: "exponent (- x) = exponent x"
  by (simp add: exponent_def)

lemma fl_0: "fl 0 = 0"
  by (simp add: fl_def)

lemma fl_minus: "fl (- x) = - fl x"
  by (simp add: fl_def ulp_def exponent_minus sgn_minus)

lemma fl_nonneg: "0 \<le> x \<Longrightarrow> 0 \<le> fl x"
  using ulp_pos [of x] by (simp add: fl_def rne_nonneg sgn_if)

lemma abs_fl: "\<bar>fl x\<bar> = of_int (rne (\<bar>x\<bar> / ulp x)) * ulp x" if "x \<noteq> 0"
proof -
  have "0 \<le> rne (\<bar>x\<bar> / ulp x)"
    using ulp_pos [of x] by (intro rne_nonneg) simp
  with that ulp_pos [of x] show ?thesis
    by (simp add: fl_def abs_mult)
qed

lemma exponent_clipped: "exponent x = - 1022" if "x \<noteq> 0" "\<bar>x\<bar> < 2 powr (- 1022)"
proof -
  have "log 2 \<bar>x\<bar> < - 1022"
    using that by (simp add: log_less_iff)
  then have "\<lfloor>log 2 \<bar>x\<bar>\<rfloor> \<le> - 1022" by linarith
  then show ?thesis by (simp add: exponent_def)
qed

lemma exponent_bounds:
  assumes "x \<noteq> 0" and "2 powr (- 1022) \<le> \<bar>x\<bar>"
  shows "2 powr of_int (exponent x) \<le> \<bar>x\<bar>" and "\<bar>x\<bar> < 2 powr (of_int (exponent x) + 1)"
proof -
  have "- 1022 \<le> log 2 \<bar>x\<bar>"
    using assms by (simp add: le_log_iff)
  then have "- 1022 \<le> \<lfloor>log 2 \<bar>x\<bar>\<rfloor>" by linarith
  then have e: "exponent x = \<lfloor>log 2 \<bar>x\<bar>\<rfloor>" by (simp add: exponent_def)
  have pos: "0 < \<bar>x\<bar>" using assms(1) by simp
  from floor_log_eq_powr_iff [OF pos, of 2 "exponent x"] e
  show "2 powr of_int (exponent x) \<le> \<bar>x\<bar>" and "\<bar>x\<bar> < 2 powr (of_int (exponent x) + 1)"
    by simp_all
qed

lemma ulp_clipped: "ulp x = 2 powr (- 1074)" if "x \<noteq> 0" "\<bar>x\<bar> < 2 powr (- 1022)"
  by (simp add: ulp_def exponent_clipped [OF that])

lemma half_ulp_less:
  assumes "x \<noteq> 0" and "2 powr (- 1022) \<le> \<bar>x\<bar>"
  shows "ulp x / 2 < \<bar>x\<bar>"
proof -
  have "ulp x / 2 = 2 powr (of_int (exponent x) - 53)"
    by (simp add: ulp_def powr_diff field_simps)
  also have "\<dots> < 2 powr of_int (exponent x)"
    by (simp only: powr_less_cancel_iff)
  also have "\<dots> \<le> \<bar>x\<bar>"
    by (rule exponent_bounds(1) [OF assms])
  finally show ?thesis .
qed

lemma fl_eq_0_iff: "fl x = 0 \<longleftrightarrow> \<bar>x\<bar> \<le> 2 powr (- 1075)"
proof (cases "x = 0")
  case True
  then show ?thesis by (simp add: fl_0)
next
  case False
  have half: "(2::real) powr (- 1075) = 2 powr (- 1074) / 2"
    by (simp add: powr_minus field_simps)
  have "fl x = 0 \<longleftrightarrow> rne (\<bar>x\<bar> / ulp x) = 0"
    using False ulp_pos [of x] by (simp add: fl_def sgn_if)
  also have "\<dots> \<longleftrightarrow> \<bar>x\<bar> / ulp x \<le> 1 / 2"
    using ulp_pos [of x] by (intro rne_eq_0_iff) simp
  also have "\<dots> \<longleftrightarrow> \<bar>x\<bar> \<le> ulp x / 2"
    using ulp_pos [of x] by (simp add: field_simps)
  also have "\<dots> \<longleftrightarrow> \<bar>x\<bar> \<le> 2 powr (- 1075)"
  proof (cases "\<bar>x\<bar> < 2 powr (- 1022)")
    case True
    then show ?thesis by (simp add: ulp_clipped [OF \<open>x \<noteq> 0\<close>] half)
  next
    case False
    then have big: "2 powr (- 1022) \<le> \<bar>x\<bar>" by simp
    have "(2::real) powr (- 1075) < 2 powr (- 1022)"
      by (simp only: powr_less_cancel_iff)
    with big have "\<not> \<bar>x\<bar> \<le> 2 powr (- 1075)" by linarith
    moreover have "\<not> \<bar>x\<bar> \<le> ulp x / 2"
      using half_ulp_less [OF \<open>x \<noteq> 0\<close> big] by linarith
    ultimately show ?thesis by simp
  qed
  finally show ?thesis .
qed

lemma fl_nonzero_ge: "2 powr (- 1074) \<le> \<bar>fl x\<bar>" if "fl x \<noteq> 0"
proof -
  from that have x: "x \<noteq> 0" by (auto simp: fl_0)
  let ?n = "rne (\<bar>x\<bar> / ulp x)"
  have "0 \<le> ?n" using ulp_pos [of x] by (intro rne_nonneg) simp
  moreover have "?n \<noteq> 0" using that x by (auto simp: fl_def)
  ultimately have "1 \<le> ?n" by linarith
  then have "(1::real) \<le> of_int ?n" by simp
  then have "1 * ulp x \<le> of_int ?n * ulp x"
    using ulp_pos [of x] by (intro mult_right_mono) simp_all
  with ulp_ge [of x] show ?thesis
    by (simp add: abs_fl [OF x])
qed

lemma fl_error: "\<bar>fl x - x\<bar> \<le> ulp x / 2"
proof (cases "x = 0")
  case True
  then show ?thesis using ulp_pos [of 0] by (simp add: fl_0)
next
  case False
  let ?q = "\<bar>x\<bar> / ulp x"
  have "of_int (rne ?q) * ulp x - \<bar>x\<bar> = (of_int (rne ?q) - ?q) * ulp x"
    using ulp_pos [of x] by (simp add: field_simps)
  then have "\<bar>\<bar>fl x\<bar> - \<bar>x\<bar>\<bar> = \<bar>(of_int (rne ?q) - ?q) * ulp x\<bar>"
    by (simp only: abs_fl [OF False])
  also have "\<dots> = \<bar>of_int (rne ?q) - ?q\<bar> * ulp x"
    using ulp_pos [of x] by (simp add: abs_mult)
  also have "\<dots> \<le> 1 / 2 * ulp x"
    using rne_error [of ?q] ulp_pos [of x] by (intro mult_right_mono) simp_all
  finally have a: "\<bar>\<bar>fl x\<bar> - \<bar>x\<bar>\<bar> \<le> ulp x / 2" by simp
  show ?thesis
  proof (cases "0 < x")
    case True
    then have "0 \<le> fl x" by (intro fl_nonneg) simp
    with a True show ?thesis by simp
  next
    case neg: False
    with False have "x < 0" by simp
    then have "0 \<le> fl (- x)" by (intro fl_nonneg) simp
    then have "fl x \<le> 0" by (simp add: fl_minus)
    with a \<open>x < 0\<close> show ?thesis by (simp add: abs_minus_commute)
  qed
qed

lemma abs_fl_le: "\<bar>fl x\<bar> \<le> 2 * \<bar>x\<bar>"
proof (cases "fl x = 0")
  case True
  then show ?thesis by simp
next
  case False
  then have x: "x \<noteq> 0" by (auto simp: fl_0)
  from False have gt: "2 powr (- 1075) < \<bar>x\<bar>" by (simp add: fl_eq_0_iff)
  have "ulp x / 2 \<le> \<bar>x\<bar>"
  proof (cases "\<bar>x\<bar> < 2 powr (- 1022)")
    case True
    have "(2::real) powr (- 1075) = 2 powr (- 1074) / 2"
      by (simp add: powr_minus field_simps)
    with gt show ?thesis by (simp add: ulp_clipped [OF x True])
  next
    case False
    then show ?thesis using half_ulp_less [OF x] by simp
  qed
  with fl_error [of x] show ?thesis by linarith
qed


lemma exponent_le:
  assumes "x \<noteq> 0" and "\<bar>x\<bar> < 2 powr of_int j" and "- 1022 \<le> j - 1"
  shows "exponent x \<le> j - 1"
proof (cases "\<bar>x\<bar> < 2 powr (- 1022)")
  case True
  with assms show ?thesis by (simp add: exponent_clipped)
next
  case False
  then have "2 powr of_int (exponent x) \<le> \<bar>x\<bar>"
    using exponent_bounds(1) [OF assms(1)] by simp
  with assms(2) have "(2::real) powr of_int (exponent x) < 2 powr of_int j" by linarith
  then have "real_of_int (exponent x) < of_int j" by (simp only: powr_less_cancel_iff) 
  then show ?thesis by simp
qed

lemma fl_exact:
  assumes "\<bar>m\<bar> < 2 ^ 53" and "- 1074 \<le> k"
  shows "fl (of_int m * 2 powr of_int k) = of_int m * 2 powr of_int k"
proof (cases "m = 0")
  case True
  then show ?thesis by (simp add: fl_0)
next
  case False
  let ?x = "of_int m * 2 powr of_int k :: real"
  have x: "?x \<noteq> 0" using False by simp
  have ax: "\<bar>?x\<bar> = of_int \<bar>m\<bar> * 2 powr of_int k"
    by (simp add: abs_mult)
  have "real_of_int \<bar>m\<bar> < 2 ^ 53"
    using assms(1) by (metis of_int_less_numeral_power_cancel_iff)
  then have "of_int \<bar>m\<bar> * 2 powr of_int k < (2 ^ 53 :: real) * 2 powr of_int k"
    by (intro mult_strict_right_mono) simp_all
  also have "\<dots> = 2 powr of_int (k + 53)"
    by (simp add: powr_add)
  finally have "\<bar>?x\<bar> < 2 powr of_int (k + 53)" by (simp only: ax)
  from exponent_le [OF x this] assms(2) have e: "exponent ?x \<le> k + 52" by simp
  define j where "j = nat (k + 52 - exponent ?x)"
  have j: "of_int k - (of_int (exponent ?x) - 52) = real j"
    using e by (simp add: j_def)
  have "\<bar>?x\<bar> / ulp ?x = of_int \<bar>m\<bar> * 2 powr (of_int k - (of_int (exponent ?x) - 52))"
    by (simp only: ax ulp_def powr_diff) simp
  also have "\<dots> = of_int \<bar>m\<bar> * 2 ^ j"
    by (simp only: j powr_realpow [of 2 j, simplified])
  also have "\<dots> = of_int (\<bar>m\<bar> * 2 ^ j)"
    by simp
  finally have q: "\<bar>?x\<bar> / ulp ?x = of_int (\<bar>m\<bar> * 2 ^ j)" .
  have "of_int (rne (\<bar>?x\<bar> / ulp ?x)) * ulp ?x = \<bar>?x\<bar> / ulp ?x * ulp ?x"
    by (simp only: q rne_of_int)
  also have "\<dots> = \<bar>?x\<bar>"
    using ulp_pos [of ?x] by simp
  finally have "of_int (rne (\<bar>?x\<bar> / ulp ?x)) * ulp ?x = \<bar>?x\<bar>" .
  then have "fl ?x = sgn ?x * \<bar>?x\<bar>"
    using x by (simp only: fl_def if_False)
  then show ?thesis
    by (simp only: mult_sgn_abs)
qed

lemma fl_of_int: "\<bar>m\<bar> < 2 ^ 53 \<Longrightarrow> fl (of_int m) = of_int m"
  using fl_exact [of m 0] by simp

lemma rne_le: "rne q \<le> n" if "q < of_int n + 1 / 2"
proof -
  have "of_int (rne q) < real_of_int n + 1"
    using rne_error [of q] that by linarith
  then have "rne q < n + 1"
    by (metis of_int_1 of_int_add of_int_less_iff)
  then show ?thesis by simp
qed

lemma fl_fl: "fl (fl x) = fl x"
proof (cases "x = 0")
  case True
  then show ?thesis by (simp add: fl_0)
next
  case False
  let ?n = "rne (\<bar>x\<bar> / ulp x)"
  have n0: "0 \<le> ?n"
    using ulp_pos [of x] by (intro rne_nonneg) simp
  have e: "- 1074 \<le> exponent x - 52"
    by (simp add: exponent_def)
  have u: "ulp x = 2 powr of_int (exponent x - 52)"
    by (simp add: ulp_def)
  have "\<bar>x\<bar> / ulp x < 2 ^ 53"
  proof (cases "\<bar>x\<bar> < 2 powr (- 1022)")
    case True
    have "\<bar>x\<bar> / ulp x < 2 powr (- 1022) / 2 powr (- 1074)"
      using True by (simp add: ulp_clipped [OF False True] divide_strict_right_mono)
    also have "\<dots> = 2 powr 52"
      by (simp add: powr_diff [symmetric])
    also have "\<dots> < (2 ^ 53 :: real)"
      by simp
    finally show ?thesis .
  next
    case big: False
    then have "\<bar>x\<bar> < 2 powr (of_int (exponent x) + 1)"
      using exponent_bounds(2) [OF False] by simp
    then have "\<bar>x\<bar> / ulp x < 2 powr (of_int (exponent x) + 1) / ulp x"
      using ulp_pos [of x] by (simp add: divide_strict_right_mono)
    also have "\<dots> = 2 powr 53"
      by (simp add: ulp_def powr_diff [symmetric])
    also have "\<dots> = (2 ^ 53 :: real)"
      by simp
    finally show ?thesis .
  qed
  moreover have "real_of_int (2 ^ 53) = 2 ^ 53"
    by simp
  ultimately have "\<bar>x\<bar> / ulp x < of_int (2 ^ 53) + 1 / 2"
    by linarith
  then have n53: "?n \<le> 2 ^ 53"
    by (rule rne_le)
  define sg :: int where "sg = (if 0 < x then 1 else - 1)"
  have sg: "sgn x = of_int sg" "\<bar>sg\<bar> = 1"
    using False by (simp_all add: sg_def sgn_if)
  have flx: "fl x = of_int (sg * ?n) * 2 powr of_int (exponent x - 52)"
    using False by (simp add: fl_def u sg)
  show ?thesis
  proof (cases "?n = 2 ^ 53")
    case True
    have "fl x = of_int sg * (2 ^ 53 * 2 powr of_int (exponent x - 52))"
      unfolding flx True by simp
    also have "(2 ^ 53 :: real) * 2 powr of_int (exponent x - 52) = 2 powr of_int (exponent x + 1)"
      by (simp add: powr_add powr_diff)
    finally have eq: "fl x = of_int sg * 2 powr of_int (exponent x + 1)" .
    have m: "\<bar>sg\<bar> < 2 ^ 53"
      by (simp add: sg)
    have k: "- 1074 \<le> exponent x + 1"
      using e by simp
    show ?thesis
      unfolding eq by (rule fl_exact [OF m k])
  next
    case neq: False
    with n53 n0 have "\<bar>sg * ?n\<bar> < 2 ^ 53"
      by (simp add: abs_mult sg)
    from fl_exact [OF this e] show ?thesis
      by (simp only: flx)
  qed
qed

text \<open>
  Evaluating \<open>fl\<close>: between \<open>2 powr e\<close> and \<open>2 powr (e + 1)\<close> the doubles are the multiples
  of \<open>2 powr (e - 52)\<close>.
\<close>

lemma exponent_eqI:
  assumes "2 powr of_int e \<le> \<bar>x\<bar>" and "\<bar>x\<bar> < 2 powr (of_int e + 1)" and "- 1022 \<le> e"
  shows "exponent x = e"
proof -
  have pos: "0 < \<bar>x\<bar>"
    using assms(1) powr_gt_zero [of 2 "of_int e"] by linarith
  from floor_log_eq_powr_iff [OF pos, of 2 e] assms(1,2) have "\<lfloor>log 2 \<bar>x\<bar>\<rfloor> = e"
    by simp
  with assms(3) show ?thesis
    by (simp add: exponent_def)
qed

lemma fl_eqI:
  assumes "2 powr of_int e \<le> x" and "x < 2 powr (of_int e + 1)" and "- 1022 \<le> e"
    and "rne (x / 2 powr (of_int e - 52)) = n"
  shows "fl x = of_int n * 2 powr (of_int e - 52)"
proof -
  have pos: "0 < x"
    using assms(1) powr_gt_zero [of 2 "of_int e"] by linarith
  then have "exponent x = e"
    using assms(1-3) by (intro exponent_eqI) simp_all
  with pos assms(4) show ?thesis
    by (simp add: fl_def ulp_def)
qed

text \<open>
  A computed length is zero exactly when the three squares underflow: a sum of doubles
  that are not negative is zero only when each is, and the correctly rounded root of a
  double that is not zero is not zero.
\<close>

lemma fl_sum_eq_0_iff:
  assumes "0 \<le> p" and "0 \<le> q"
  shows "fl (fl p + fl q) = 0 \<longleftrightarrow> fl p = 0 \<and> fl q = 0"
proof
  assume z: "fl (fl p + fl q) = 0"
  have nn: "0 \<le> fl p" "0 \<le> fl q"
    using assms by (simp_all add: fl_nonneg)
  from z nn have le: "fl p + fl q \<le> 2 powr (- 1075)"
    by (simp add: fl_eq_0_iff)
  have lt: "(2::real) powr (- 1075) < 2 powr (- 1074)"
    by (simp only: powr_less_cancel_iff)
  show "fl p = 0 \<and> fl q = 0"
  proof (rule ccontr)
    assume "\<not> (fl p = 0 \<and> fl q = 0)"
    then consider "fl p \<noteq> 0" | "fl q \<noteq> 0" by blast
    then have "2 powr (- 1074) \<le> fl p + fl q"
    proof cases
      case 1
      from fl_nonzero_ge [OF 1] nn show ?thesis by simp
    next
      case 2
      from fl_nonzero_ge [OF 2] nn show ?thesis by simp
    qed
    with le lt show False by linarith
  qed
next
  assume "fl p = 0 \<and> fl q = 0"
  then show "fl (fl p + fl q) = 0" by (simp add: fl_0)
qed

lemma fl_sqrt_fl_eq_0_iff:
  assumes "0 \<le> p"
  shows "fl (sqrt (fl p)) = 0 \<longleftrightarrow> fl p = 0"
proof
  assume z: "fl (sqrt (fl p)) = 0"
  have nn: "0 \<le> fl p" using assms by (rule fl_nonneg)
  show "fl p = 0"
  proof (rule ccontr)
    assume nz: "fl p \<noteq> 0"
    from fl_nonzero_ge [OF nz] nn have "2 powr (- 1074) \<le> fl p" by simp
    then have "sqrt (2 powr (- 1074)) \<le> sqrt (fl p)" by simp
    moreover have "sqrt (2 powr (- 1074)) = 2 powr (- 537)"
      by (simp add: powr_half_sqrt [symmetric] powr_powr)
    ultimately have a: "2 powr (- 537) \<le> sqrt (fl p)" by simp
    have b: "(2::real) powr (- 1075) < 2 powr (- 537)"
      by (simp only: powr_less_cancel_iff)
    from a b have "\<not> \<bar>sqrt (fl p)\<bar> \<le> 2 powr (- 1075)" by linarith
    with z show False by (simp only: fl_eq_0_iff)
  qed
next
  assume "fl p = 0"
  then show "fl (sqrt (fl p)) = 0" by (simp add: fl_0)
qed

lemma length_double_eq_0_iff: "length_double v = 0 \<longleftrightarrow> squares_underflow v"
proof -
  let ?a = "vx v * vx v" and ?b = "vy v * vy v" and ?c = "vz v * vz v"
  have nn: "0 \<le> ?a" "0 \<le> ?b" "0 \<le> ?c" by simp_all
  have nn2: "0 \<le> fl ?a + fl ?b" "0 \<le> fl (fl ?a + fl ?b) + fl ?c"
    using nn by (simp_all add: fl_nonneg)
  have "length_double v = 0 \<longleftrightarrow> fl (fl (fl ?a + fl ?b) + fl ?c) = 0"
    unfolding length_double_def by (rule fl_sqrt_fl_eq_0_iff [OF nn2(2)])
  also have "\<dots> \<longleftrightarrow> fl (fl ?a + fl ?b) = 0 \<and> fl ?c = 0"
    by (rule fl_sum_eq_0_iff [OF nn2(1) nn(3)])
  also have "\<dots> \<longleftrightarrow> (fl ?a = 0 \<and> fl ?b = 0) \<and> fl ?c = 0"
    by (simp only: fl_sum_eq_0_iff [OF nn(1) nn(2)])
  also have "\<dots> \<longleftrightarrow> squares_underflow v"
    using nn by (simp add: fl_eq_0_iff squares_underflow_def)
  finally show ?thesis .
qed

section \<open>Vector facts\<close>

lemma length3_nonneg: "0 \<le> length3 v"
  by (simp add: length3_def)

lemma length3_eq_0_iff: "length3 v = 0 \<longleftrightarrow> v = Vector3 0 0 0"
proof (cases v)
  case (Vector3 a b c)
  have "a * a + b * b + c * c = 0 \<longleftrightarrow> a = 0 \<and> b = 0 \<and> c = 0"
    by (metis add_nonneg_eq_0_iff add_nonneg_nonneg mult_eq_0_iff zero_le_square
        add.right_neutral)
  with Vector3 show ?thesis
    by (simp add: length3_def)
qed

lemma length3_multiplyScalar: "length3 (multiplyScalar v s) = \<bar>s\<bar> * length3 v"
proof -
  have "vx v * s * (vx v * s) + vy v * s * (vy v * s) + vz v * s * (vz v * s)
        = s\<^sup>2 * (vx v * vx v + vy v * vy v + vz v * vz v)"
    by (simp add: power2_eq_square algebra_simps)
  then show ?thesis
    by (simp add: length3_def multiplyScalar_def real_sqrt_mult)
qed

lemma multiplyScalar_zero: "multiplyScalar v 0 = Vector3 0 0 0"
  by (simp add: multiplyScalar_def)

lemma multiplyScalar_one: "multiplyScalar v 1 = v"
  by (cases v) (simp add: multiplyScalar_def)

text \<open>
  The heading of a yawed object: three.js' quaternion and matrix arithmetic give the
  unit vector \<open>(sin \<theta>, 0, cos \<theta>)\<close>, and a thrust along the local z axis is turned into it.
\<close>

lemma getWorldDirection_yaw:
  "getWorldDirection scene = Vector3 (sin (rotation_y scene)) 0 (cos (rotation_y scene))"
proof -
  define t where "t = rotation_y scene / 2"
  have th: "rotation_y scene = 2 * t" by (simp add: t_def)
  have "cos t * (2 * sin t) = 2 * sin t * cos t"
    by simp
  then have s: "cos t * (2 * sin t) = sin (2 * t)"
    by (simp only: sin_double)
  have "1 - sin t * (2 * sin t) = 1 - 2 * (sin t)\<^sup>2"
    by (simp add: power2_eq_square)
  then have c: "1 - sin t * (2 * sin t) = cos (2 * t)"
    by (simp only: cos_double_sin)
  have "sin (2 * t) * sin (2 * t) + cos (2 * t) * cos (2 * t) = 1"
    using sin_cos_squared_add [of "2 * t"] by (simp only: power2_eq_square)
  then have len: "length3 (Vector3 (sin (2 * t)) 0 (cos (2 * t))) = 1"
    by (simp add: length3_def)
  have "getWorldDirection scene
          = normalize (Vector3 (cos t * (2 * sin t)) 0 (1 - sin t * (2 * sin t)))"
    by (simp add: getWorldDirection_def quaternion_def Let_def t_def)
  also have "\<dots> = normalize (Vector3 (sin (2 * t)) 0 (cos (2 * t)))"
    by (simp only: s c)
  also have "\<dots> = Vector3 (sin (2 * t)) 0 (cos (2 * t))"
    by (simp add: normalize_def len divideScalar_def multiplyScalar_def)
  finally show ?thesis
    by (simp only: th)
qed

lemma applyQuaternion_yaw:
  "applyQuaternion (Vector3 0 0 T) (quaternion scene)
     = Vector3 (T * sin (rotation_y scene)) 0 (T * cos (rotation_y scene))"
proof -
  define t where "t = rotation_y scene / 2"
  have th: "rotation_y scene = 2 * t" by (simp add: t_def)
  have s: "sin (2 * t) = 2 * sin t * cos t"
    by (rule sin_double)
  have c: "cos (2 * t) = 1 - 2 * (sin t * sin t)"
    by (simp only: cos_double_sin power2_eq_square)
  show ?thesis
    unfolding applyQuaternion_def quaternion_def Let_def t_def [symmetric] th s c
    by (simp add: algebra_simps)
qed

section \<open>The wind model: sail, rest test, height\<close>

text \<open>
  C4, as the specification words it: \<open>computeWindForce\<close> clamps the sail angle and takes
  the sine, so that a sail angle of 0 gives no force and \<open>\<pi>/2\<close> the full wind. The
  repository holds the method twice. The copy in \<open>src/unnamed/part_000\<close> takes the cosine
  of the angle as it is given: there a sail angle of 0 gives the full wind and \<open>\<pi>/2\<close>
  gives none.
\<close>

theorem computeWindForce_part_000_counterexample:
  "computeWindForce_part_000 (Vector3 1 0 0) 0 = Vector3 1 0 0
   \<and> computeWindForce_part_000 (Vector3 1 0 0) (pi / 2) = Vector3 0 0 0"
  by (simp add: computeWindForce_part_000_def multiplyScalar_def)

text \<open>
  C4, amended: \<open>computeWindForce\<close> of main.js clamps the sail angle into \<open>[0, \<pi>/2]\<close>,
  takes the absolute value of the sine of the clamped angle as effectiveness and scales
  the wind direction by it; hence a sail angle of 0 gives the zero force, \<open>\<pi>/2\<close> gives the
  wind direction itself, and no angle gives a longer force than \<open>\<pi>/2\<close> does. The copy of
  the method in \<open>src/unnamed/part_000\<close> scales the wind direction by the absolute value of
  the cosine of the unclamped angle; there 0 gives the wind direction and \<open>\<pi>/2\<close> the zero
  force.
\<close>

theorem computeWindForce_clamped_sine:
  "computeWindForce windDirection sailAngle
     = multiplyScalar windDirection \<bar>sin (clamp sailAngle 0 (pi / 2))\<bar>
   \<and> computeWindForce windDirection 0 = Vector3 0 0 0
   \<and> computeWindForce windDirection (pi / 2) = windDirection
   \<and> length3 (computeWindForce windDirection sailAngle)
       \<le> length3 (computeWindForce windDirection (pi / 2))
   \<and> computeWindForce_part_000 windDirection sailAngle
     = multiplyScalar windDirection \<bar>cos sailAngle\<bar>
   \<and> computeWindForce_part_000 windDirection 0 = windDirection
   \<and> computeWindForce_part_000 windDirection (pi / 2) = Vector3 0 0 0"
proof -
  have eq: "computeWindForce windDirection sailAngle
     = multiplyScalar windDirection \<bar>sin (clamp sailAngle 0 (pi / 2))\<bar>"
    by (simp add: computeWindForce_def clamp_def min.commute)
  have zero: "computeWindForce windDirection 0 = Vector3 0 0 0"
    by (simp add: computeWindForce_def multiplyScalar_zero)
  have full: "computeWindForce windDirection (pi / 2) = windDirection"
    by (simp add: computeWindForce_def multiplyScalar_one)
  have "\<bar>sin (clamp sailAngle 0 (pi / 2))\<bar> \<le> 1"
    by simp
  then have "\<bar>sin (clamp sailAngle 0 (pi / 2))\<bar> * length3 windDirection
               \<le> 1 * length3 windDirection"
    by (intro mult_right_mono length3_nonneg)
  then have le: "length3 (computeWindForce windDirection sailAngle)
       \<le> length3 (computeWindForce windDirection (pi / 2))"
    by (simp add: eq full length3_multiplyScalar)
  have other: "computeWindForce_part_000 windDirection sailAngle
       = multiplyScalar windDirection \<bar>cos sailAngle\<bar>"
    "computeWindForce_part_000 windDirection 0 = windDirection"
    "computeWindForce_part_000 windDirection (pi / 2) = Vector3 0 0 0"
    by (simp_all add: computeWindForce_part_000_def multiplyScalar_one multiplyScalar_zero)
  from eq zero full le other show ?thesis by simp
qed

subsection \<open>The rest test\<close>

lemma fl_small_numerals:
  "fl 2000 = 2000" "fl 4905 = 4905" "fl 14715 = 14715" "fl 19620 = 19620"
  using fl_of_int [of 2000] fl_of_int [of 4905] fl_of_int [of 14715] fl_of_int [of 19620]
  by simp_all

text \<open>
  The doubles of the literals \<open>0.1\<close>, \<open>0.3\<close> and \<open>9.81\<close>, and three products of them.
\<close>

lemma fl_literals:
  "fl 0.1 = 3602879701896397 / 2 ^ 55"
  "fl 0.3 = 5404319552844595 / 2 ^ 54"
  "fl 9.81 = 5522539043063071 / 2 ^ 49"
  using fl_eqI [of "- 4" "1 / 10" 7205759403792794]
    fl_eqI [of "- 2" "3 / 10" 5404319552844595]
    fl_eqI [of 3 "981 / 100" 5522539043063071]
  by (simp_all add: rne_def Let_def powr_minus inverse_eq_divide)

lemma fl_products:
  "fl (3 * (3602879701896397 / 2 ^ 55)) = 1351079888211149 / 2 ^ 52"
  "fl (5522539043063071 / 2 ^ 49 * (5404319552844595 / 2 ^ 54)) = 6627046851675685 / 2 ^ 51"
  "fl (1351079888211149 / 2 ^ 52 * (5522539043063071 / 2 ^ 49)) = 3313523425837843 / 2 ^ 50"
  using fl_eqI [of "- 2" "3 * (3602879701896397 / 2 ^ 55)" 5404319552844596]
    fl_eqI [of 1 "5522539043063071 / 2 ^ 49 * (5404319552844595 / 2 ^ 54)" 6627046851675685]
    fl_eqI [of 1 "1351079888211149 / 2 ^ 52 * (5522539043063071 / 2 ^ 49)" 6627046851675686]
  by (simp_all add: rne_def Let_def powr_minus inverse_eq_divide)

lemma fl_two_powr_m51: "fl (1 / 2 ^ 51) = 1 / 2 ^ 51"
  using fl_exact [of 1 "- 51"] by (simp add: powr_minus inverse_eq_divide)

lemma Forces_double_vertical:
  "vy (gravity (Forces_double m v d)) = fl (- fl 9.81 * m)"
  "vy (buoyancy (Forces_double m v d)) = fl (fl (d * v) * fl 9.81)"
  by (simp_all add: Forces_double_def)

lemma computeWindForce_double_flat:
  "computeWindForce_double windDirection 0 = Vector3 0 0 0"
proof -
  have "0 \<le> fl (Math_PI / 2)"
    by (intro fl_nonneg) (simp add: Math_PI_def fl_nonneg)
  then have "max 0 (min 0 (fl (Math_PI / 2))) = 0"
    by simp
  then show ?thesis
    by (simp add: computeWindForce_double_def Math_sin_def multiplyScalar_double_def fl_0)
qed

lemma vy_computeNetForce_double_still:
  "vy (computeNetForce_double this (Vector3 0 0 0) windDirection sailAngle)
     = fl (fl (fl (vy (gravity this)) + vy (buoyancy this))
            + vy (computeWindForce_double windDirection sailAngle))"
  by (simp add: computeNetForce_double_def computeAirResistance_double_def
      computeWaterResistance_double_def add_double_def multiplyScalar_double_def
      Let_def fl_0 fl_fl)

lemma isAtRest_start: "\<not> isAtRest (forces WindBoat_start) (Vector3 1 0 0) (pi / 2) (Vector3 0 0 0)"
proof -
  let ?n = "computeNetForce_double (forces WindBoat_start) (Vector3 0 0 0) (Vector3 1 0 0) (pi / 2)"
  have "vy (computeWindForce_double (Vector3 1 0 0) (pi / 2)) = 0"
    by (simp add: computeWindForce_double_def multiplyScalar_double_def fl_0 Let_def)
  then have "vy ?n = 14715"
    by (simp add: vy_computeNetForce_double_still WindBoat_start_def fl_small_numerals fl_minus)
  moreover have "(2::real) powr (- 1075) \<le> 2 powr 0"
    by (simp only: powr_le_cancel_iff)
  ultimately have "\<not> squares_underflow ?n"
    by (simp add: squares_underflow_def)
  then show ?thesis
    by (simp add: isAtRest_def length_double_eq_0_iff)
qed

text \<open>
  Forces that balance over the reals need not balance in doubles: for
  \<open>new Forces(0.3, 0.1, 3)\<close> the weight \<open>9.81 * 0.3\<close> and the lift \<open>3 * 0.1 * 9.81\<close> round
  differently, the net force on the boat at rest is \<open>2 powr -51\<close> upwards and the boat is
  not at rest.
\<close>

lemma balanced_forces_not_at_rest:
  "vy (computeNetForce_double (Forces_double (fl 0.3) (fl 0.1) 3) (Vector3 0 0 0) (Vector3 1 0 0) 0)
     = 1 / 2 ^ 51
   \<and> \<not> isAtRest (Forces_double (fl 0.3) (fl 0.1) 3) (Vector3 1 0 0) 0 (Vector3 0 0 0)"
proof -
  let ?n = "computeNetForce_double (Forces_double (fl 0.3) (fl 0.1) 3) (Vector3 0 0 0) (Vector3 1 0 0) 0"
  have g: "vy (gravity (Forces_double (fl 0.3) (fl 0.1) 3)) = - (6627046851675685 / 2 ^ 51)"
    by (simp only: Forces_double_vertical fl_literals mult_minus_left fl_minus fl_products)
  have b: "vy (buoyancy (Forces_double (fl 0.3) (fl 0.1) 3)) = 3313523425837843 / 2 ^ 50"
    by (simp only: Forces_double_vertical fl_literals fl_products)
  have "fl (- (6627046851675685 / 2 ^ 51)) = - (6627046851675685 / 2 ^ 51)"
    using fl_fl [of "5522539043063071 / 2 ^ 49 * (5404319552844595 / 2 ^ 54)"]
    by (simp only: fl_products(2) fl_minus)
  moreover have "- (6627046851675685 / 2 ^ 51) + 3313523425837843 / 2 ^ 50 = (1 / 2 ^ 51 :: real)"
    by simp
  ultimately have y: "vy ?n = 1 / 2 ^ 51"
    by (simp only: vy_computeNetForce_double_still g b computeWindForce_double_flat
        Vector3.sel add_0_right fl_two_powr_m51)
  have "(2::real) powr (- 1075) < 2 powr (- 102)"
    by (simp only: powr_less_cancel_iff)
  also have "(2::real) powr (- 102) = 1 / 2 ^ 51 * (1 / 2 ^ 51)"
    by (simp add: powr_minus inverse_eq_divide)
  finally have "\<not> squares_underflow ?n"
    by (simp add: squares_underflow_def y)
  with y show ?thesis
    by (simp add: isAtRest_def length_double_eq_0_iff)
qed

lemma WindBoat_start_reached:
  "map_sum id (WindBoat_onLoad (Vector3 1 0 0) (pi / 2)) WindBoat_constructor
     = Inr WindBoat_start"
proof -
  have c: "WindBoat_constructor = Inr (WindBoat_start\<lparr> WindBoat.boat := None \<rparr>)"
    by (simp add: WindBoat_constructor_def Forces_constructor_def WindBoat_start_def
        computeBuoyancy_def GRAVITY_ACCELERATION_def)
  have f: "forces (WindBoat_start\<lparr> WindBoat.boat := None \<rparr>) = forces WindBoat_start"
    "WindBoat.velocity (WindBoat_start\<lparr> WindBoat.boat := None \<rparr>) = Vector3 0 0 0"
    by (simp_all add: WindBoat_start_def)
  show ?thesis
    using isAtRest_start
    by (simp add: c WindBoat_onLoad_def Let_def f) (simp add: WindBoat_start_def)
qed

lemma fl_literal_bounds:
  "0 \<le> fl 0.1" "fl 0.1 \<le> 1 / 5" "0 \<le> fl (1 / 10 ^ 200)" "fl (1 / 10 ^ 200) \<le> 2 / 10 ^ 200"
  "fl (1 / 10 ^ 200) \<noteq> 0"
proof -
  show "0 \<le> fl 0.1" "0 \<le> fl (1 / 10 ^ 200)"
    by (simp_all add: fl_nonneg)
  then show "fl 0.1 \<le> 1 / 5" "fl (1 / 10 ^ 200) \<le> 2 / 10 ^ 200"
    using abs_fl_le [of "0.1"] abs_fl_le [of "1 / 10 ^ 200"] by simp_all
  have "(2::real) powr (- 1075) = 1 / 2 ^ 1075"
    by (simp add: powr_minus powr_numeral inverse_eq_divide)
  then show "fl (1 / 10 ^ 200) \<noteq> 0"
    by (simp add: fl_eq_0_iff)
qed

lemma tiny_square_underflows:
  "x * x \<le> 2 powr (- 1075)" if "\<bar>x\<bar> \<le> 8 / 10 ^ 200" for x :: real
proof -
  have "x * x = \<bar>x\<bar> * \<bar>x\<bar>" by simp
  also have "\<dots> \<le> (8 / 10 ^ 200) * (8 / 10 ^ 200)"
    using that by (intro mult_mono) simp_all
  also have "\<dots> \<le> 1 / 2 ^ 1075"
    by simp
  also have "\<dots> = 2 powr (- 1075)"
    by (simp add: powr_minus powr_numeral inverse_eq_divide)
  finally show ?thesis .
qed

lemma rounded_sum_bound:
  "\<bar>r\<bar> \<le> 2 * \<bar>s\<bar> \<Longrightarrow> \<bar>s\<bar> \<le> \<bar>a\<bar> + \<bar>b\<bar> \<Longrightarrow> \<bar>a\<bar> \<le> A \<Longrightarrow> \<bar>b\<bar> \<le> B
     \<Longrightarrow> \<bar>r\<bar> \<le> 2 * A + 2 * B" for r :: real
  by linarith

lemma drifting_netForce:
  "squares_underflow
     (computeNetForce_double (Forces_double 2000 2 1000) scenario_drifting (Vector3 1 0 0) 0)"
proof -
  define d where "d = fl 0.1"
  define u where "u = fl (1 / 10 ^ 200)"
  define a where "a = fl (u * - d)"
  define b where "b = fl (u * fl (- d * 2))"
  have d: "0 \<le> d" "d \<le> 1 / 5" and u: "0 \<le> u" "u \<le> 2 / 10 ^ 200"
    using fl_literal_bounds by (simp_all add: d_def u_def)
  have ud: "u * d \<le> (2 / 10 ^ 200) * (1 / 5)"
    using d u by (intro mult_mono) simp_all
  have "\<bar>a\<bar> \<le> 2 * \<bar>u * - d\<bar>"
    unfolding a_def by (rule abs_fl_le)
  also have "\<bar>u * - d\<bar> = u * d"
    using d u by (simp add: abs_mult)
  finally have a: "\<bar>a\<bar> \<le> 8 / 10 ^ 201"
    using ud by simp
  have "\<bar>fl (- d * 2)\<bar> \<le> 2 * \<bar>- d * 2\<bar>"
    by (rule abs_fl_le)
  with d have d2: "\<bar>fl (- d * 2)\<bar> \<le> 4 / 5"
    by simp
  have "u * \<bar>fl (- d * 2)\<bar> \<le> (2 / 10 ^ 200) * (4 / 5)"
    using d2 u by (intro mult_mono) simp_all
  moreover have "\<bar>b\<bar> \<le> 2 * \<bar>u * fl (- d * 2)\<bar>"
    unfolding b_def by (rule abs_fl_le)
  moreover have "\<bar>u * fl (- d * 2)\<bar> = u * \<bar>fl (- d * 2)\<bar>"
    using u by (simp add: abs_mult)
  ultimately have b: "\<bar>b\<bar> \<le> 32 / 10 ^ 201"
    by simp
  have "\<bar>fl (a + b)\<bar> \<le> 2 * \<bar>a + b\<bar>"
    by (rule abs_fl_le)
  moreover have "\<bar>a + b\<bar> \<le> \<bar>a\<bar> + \<bar>b\<bar>"
    by (rule abs_triangle_ineq)
  ultimately have "\<bar>fl (a + b)\<bar> \<le> 2 * (8 / 10 ^ 201) + 2 * (32 / 10 ^ 201)"
    using a b by (rule rounded_sum_bound)
  then have x: "\<bar>fl (a + b)\<bar> \<le> 8 / 10 ^ 200"
    by simp
  have n: "computeNetForce_double (Forces_double 2000 2 1000) scenario_drifting (Vector3 1 0 0) 0
             = Vector3 (fl (a + b)) 0 0"
    by (simp add: computeNetForce_double_def computeWindForce_double_flat
        computeAirResistance_double_def computeWaterResistance_double_def Forces_double_def
        scenario_drifting_def add_double_def multiplyScalar_double_def Let_def
        fl_0 fl_fl fl_minus fl_small_numerals mult.commute a_def b_def d_def u_def)
  show ?thesis
    using tiny_square_underflows [OF x] by (simp add: n squares_underflow_def)
qed

text \<open>
  C7, as the specification words it: any velocity that is not zero makes \<open>isAtRest\<close>
  false. For the forces \<open>new Forces(2000, 2, 1000)\<close>, whose gravity and buoyancy cancel,
  with the sail flat (angle 0) and the velocity \<open>(1e-200, 0, 0)\<close>, the drag is of the order
  of \<open>1e-201\<close>; its square and the square of the velocity underflow, both lengths are
  computed as zero and \<open>isAtRest\<close> is true.
\<close>

theorem isAtRest_underflow_counterexample:
  "scenario_drifting \<noteq> Vector3 0 0 0
   \<and> isAtRest (Forces_double 2000 2 1000) (Vector3 1 0 0) 0 scenario_drifting"
proof -
  have nz: "scenario_drifting \<noteq> Vector3 0 0 0"
    using fl_literal_bounds(5) by (simp add: scenario_drifting_def)
  have "\<bar>fl (1 / 10 ^ 200)\<bar> \<le> 8 / 10 ^ 200"
    using fl_literal_bounds(3,4) by simp
  then have "squares_underflow scenario_drifting"
    using tiny_square_underflows [of "fl (1 / 10 ^ 200)"]
    by (simp add: squares_underflow_def scenario_drifting_def)
  with drifting_netForce nz show ?thesis
    by (simp add: isAtRest_def length_double_eq_0_iff)
qed

text \<open>
  C7, amended: \<open>isAtRest\<close> is true exactly when the computed length of the net force
  (from the velocity, the wind direction and the sail angle) is zero and the computed
  length of the velocity is zero. The test is an equality of doubles with zero, no
  threshold. A computed length is zero exactly when the square of each component
  underflows, that is, when each component is at most \<open>2 powr -537.5\<close> (about
  \<open>1.5e-162\<close>) in magnitude: any component of the computed net force or of the velocity
  above that makes \<open>isAtRest\<close> false, a smaller one does not.
\<close>

theorem isAtRest_zero_lengths:
  "isAtRest this windDirection sailAngle v
     = (length_double (computeNetForce_double this v windDirection sailAngle) = 0
        \<and> length_double v = 0)
   \<and> isAtRest this windDirection sailAngle v
     = (squares_underflow (computeNetForce_double this v windDirection sailAngle)
        \<and> squares_underflow v)
   \<and> squares_underflow (Vector3 0 0 0)"
  by (simp add: isAtRest_def length_double_eq_0_iff squares_underflow_def Let_def)

text \<open>
  C10. In the wind model \<open>update\<close> moves a loaded boat along its heading
  \<open>(sin \<theta>, 0, cos \<theta>)\<close> by the speed times \<open>deltaTime\<close>: it never changes \<open>position.y\<close>,
  whatever the vertical net force and the vertical velocity are.
\<close>

theorem WindBoat_update_keeps_height:
  assumes "WindBoat.boat this = Some scene"
    and "Forces.mass (forces this) \<noteq> 0"
  shows "map_option (\<lambda>s. vy (position s))
           (WindBoat.boat (WindBoat_update windDirection sailAngle deltaTime this))
         = Some (vy (position scene))
       \<and> map_option position
           (WindBoat.boat (WindBoat_update windDirection sailAngle deltaTime this))
         = Some (add (position scene)
             (multiplyScalar (Vector3 (sin (rotation_y scene)) 0 (cos (rotation_y scene)))
                (length3 (WindBoat.velocity (WindBoat_update windDirection sailAngle deltaTime this))
                   * deltaTime)))"
  using assms
  by (simp add: WindBoat_update_def Let_def add_def multiplyScalar_def getWorldDirection_yaw)

theorem WindBoat_update_keeps_height_witness:
  "WindBoat.boat WindBoat_start = Some \<lparr> position = Vector3 0 0 0, rotation_y = pi \<rparr>
   \<and> Forces.mass (forces WindBoat_start) \<noteq> 0
   \<and> vy (WindBoat.velocity (WindBoat_update (Vector3 1 0 0) (pi / 2) 0.016 WindBoat_start))
       = 0.47088
   \<and> map_option (\<lambda>s. vy (position s))
        (WindBoat.boat (WindBoat_update (Vector3 1 0 0) (pi / 2) 0.016 WindBoat_start))
      = Some 0"
proof -
  have b: "WindBoat.boat WindBoat_start = Some \<lparr> position = Vector3 0 0 0, rotation_y = pi \<rparr>"
    by (simp add: WindBoat_start_def)
  have m: "Forces.mass (forces WindBoat_start) \<noteq> 0"
    by (simp add: WindBoat_start_def)
  have v: "vy (WindBoat.velocity (WindBoat_update (Vector3 1 0 0) (pi / 2) 0.016 WindBoat_start))
       = 0.47088"
    using isAtRest_start
    by (simp add: WindBoat_update_def b Let_def)
       (simp add: WindBoat_start_def computeNetForce_def computeAcceleration_def
         computeAirResistance_def computeWaterResistance_def computeWindForce_def
         add_def multiplyScalar_def divideScalar_def Let_def)
  from WindBoat_update_keeps_height [OF b m, of "Vector3 1 0 0" "pi / 2" "0.016"] b m v
  show ?thesis by simp
qed

section \<open>The thrust model: buoyancy, floor, mass, readiness\<close>

lemma start_facts:
  "ThrustBoat.boat (ThrustBoat_onLoad ThrustBoat_constructor)
     = Some \<lparr> position = Vector3 (- 10) (- 4) (- 10), rotation_y = 0 \<rparr>"
  "volume (ThrustBoat_onLoad ThrustBoat_constructor) = 1.5"
  by (simp_all add: ThrustBoat_onLoad_def ThrustBoat_constructor_def)

text \<open>
  C3, as the specification words it: the submerged volume is
  \<open>baseVolume * clamp(1 - position.y / referenceDepth, 0, 1)\<close>, so never above the base
  volume. \<open>update\<close> clamps from below only. The boat is loaded at \<open>position.y = -4\<close>, where
  the factor is 3: the submerged volume is 4.5 for a base volume of 1.5.
\<close>

theorem submergedVolume_counterexample:
  "ThrustBoat.boat (ThrustBoat_onLoad ThrustBoat_constructor)
       = Some \<lparr> position = Vector3 (- 10) (- 4) (- 10), rotation_y = 0 \<rparr>
   \<and> volume (ThrustBoat_onLoad ThrustBoat_constructor) = 1.5
   \<and> submergedVolume (ThrustBoat_onLoad ThrustBoat_constructor)
       \<lparr> position = Vector3 (- 10) (- 4) (- 10), rotation_y = 0 \<rparr> = 4.5
   \<and> submergedVolume_spec 1.5 2 (- 4) = 1.5
   \<and> \<not> submergedVolume (ThrustBoat_onLoad ThrustBoat_constructor)
       \<lparr> position = Vector3 (- 10) (- 4) (- 10), rotation_y = 0 \<rparr>
         \<le> volume (ThrustBoat_onLoad ThrustBoat_constructor)"
  by (simp add: submergedVolume_def submergedVolume_spec_def clamp_def start_facts)

text \<open>
  C3, amended: the submerged volume is \<open>max(0, volume * (1 - position.y / 2))\<close>. For a
  volume that is not negative it is never negative and equals
  \<open>volume * max(0, 1 - position.y / 2)\<close>; at \<open>position.y \<ge> 0\<close> this is the specification's
  clamped formula with reference depth 2 and stays within the base volume; at
  \<open>position.y < 0\<close> it is \<open>volume * (1 - position.y / 2)\<close>, at least the base volume.
\<close>

theorem submergedVolume_lower_clamp_only:
  assumes "0 \<le> volume this"
  shows "0 \<le> submergedVolume this scene
       \<and> submergedVolume this scene = volume this * max 0 (1 - vy (position scene) / 2)
       \<and> (if 0 \<le> vy (position scene)
          then submergedVolume this scene = submergedVolume_spec (volume this) 2 (vy (position scene))
             \<and> submergedVolume this scene \<le> volume this
          else submergedVolume this scene = volume this * (1 - vy (position scene) / 2)
             \<and> volume this \<le> submergedVolume this scene)"
proof -
  let ?y = "vy (position scene)"
  have nonneg: "0 \<le> submergedVolume this scene"
    by (simp add: submergedVolume_def)
  have eq: "submergedVolume this scene = volume this * max 0 (1 - ?y / 2)"
  proof (cases "0 \<le> 1 - ?y / 2")
    case True
    with assms show ?thesis by (simp add: submergedVolume_def max_def)
  next
    case False
    then have "volume this * (1 - ?y / 2) \<le> 0"
      using assms by (simp add: mult_nonneg_nonpos)
    with False show ?thesis by (simp add: submergedVolume_def max_def)
  qed
  have rest: "if 0 \<le> ?y
          then submergedVolume this scene = submergedVolume_spec (volume this) 2 ?y
             \<and> submergedVolume this scene \<le> volume this
          else submergedVolume this scene = volume this * (1 - ?y / 2)
             \<and> volume this \<le> submergedVolume this scene"
  proof (cases "0 \<le> ?y")
    case True
    then have le1: "max 0 (1 - ?y / 2) \<le> 1" by simp
    then have "clamp (1 - ?y / 2) 0 1 = max 0 (1 - ?y / 2)"
      using True by (simp add: clamp_def min_def)
    moreover have "volume this * max 0 (1 - ?y / 2) \<le> volume this * 1"
      using le1 assms by (rule mult_left_mono)
    ultimately show ?thesis
      using True by (simp add: eq submergedVolume_spec_def)
  next
    case False
    then have ge1: "1 \<le> 1 - ?y / 2" by simp
    then have m: "max 0 (1 - ?y / 2) = 1 - ?y / 2" by simp
    have "volume this * 1 \<le> volume this * (1 - ?y / 2)"
      using ge1 assms by (rule mult_left_mono)
    with False show ?thesis by (simp add: eq m)
  qed
  from nonneg eq rest show ?thesis by simp
qed

theorem submergedVolume_lower_clamp_only_witness:
  "0 \<le> volume (ThrustBoat_onLoad ThrustBoat_constructor)
   \<and> submergedVolume (ThrustBoat_onLoad ThrustBoat_constructor) scenario_afloat = 0.75
   \<and> submergedVolume (ThrustBoat_onLoad ThrustBoat_constructor) scenario_afloat
       = submergedVolume_spec 1.5 2 1
   \<and> submergedVolume (ThrustBoat_onLoad ThrustBoat_constructor) scenario_afloat \<le> 1.5
   \<and> submergedVolume (ThrustBoat_onLoad ThrustBoat_constructor)
       \<lparr> position = Vector3 (- 10) (- 4) (- 10), rotation_y = 0 \<rparr> = 1.5 * (1 - (- 4) / 2)
   \<and> 1.5 \<le> submergedVolume (ThrustBoat_onLoad ThrustBoat_constructor)
       \<lparr> position = Vector3 (- 10) (- 4) (- 10), rotation_y = 0 \<rparr>"
proof -
  have v: "0 \<le> volume (ThrustBoat_onLoad ThrustBoat_constructor)"
    by (simp add: start_facts)
  from submergedVolume_lower_clamp_only [OF v, of scenario_afloat]
       submergedVolume_lower_clamp_only [OF v, of "\<lparr> position = Vector3 (- 10) (- 4) (- 10), rotation_y = 0 \<rparr>"]
  show ?thesis
    by (simp add: start_facts scenario_afloat_def)
qed









text \<open>
  C5, as the specification words it: a body with \<open>mass \<le> 0\<close> is rejected. Neither the
  constructor of \<open>Forces\<close> nor \<open>setMass\<close> tests the mass: a mass of 0 and a mass of \<open>-1\<close>
  are stored.
\<close>

theorem mass_not_validated_counterexample:
  "Forces_constructor 0 2 1000 None None
     = Inr \<lparr> Forces.mass = 0, Forces.volumeDisplaced = 2, Forces.fluidDensity = 1000,
             gravity = Vector3 0 0 0, buoyancy = Vector3 0 19620 0,
             dragCoefficient = 0.1, windForce = Vector3 0 0 0 \<rparr>
   \<and> setMass (- 1) (ThrustBoat_onLoad ThrustBoat_constructor)
     = Inr ((ThrustBoat_onLoad ThrustBoat_constructor)\<lparr> ThrustBoat.mass := - 1, inertia := - 2 / 3 \<rparr>)"
  by (simp add: Forces_constructor_def setMass_def computeBuoyancy_def GRAVITY_ACCELERATION_def)

text \<open>
  C5, amended: the constructor of \<open>Forces\<close> and \<open>setMass\<close> accept every mass, also one
  that is zero or negative. They never fail and store the mass as given, with the gravity
  force \<open>-9.81 * mass\<close> and the inertia \<open>(1 / 12) * mass * 8\<close> derived from it.
\<close>

theorem mass_accepted_as_given:
  "(case Forces_constructor mass' volumeDisplaced' fluidDensity' dragCoefficient' windForce' of
      Inl e \<Rightarrow> False
    | Inr f \<Rightarrow> Forces.mass f = mass' \<and> gravity f = Vector3 0 (- 9.81 * mass') 0)
   \<and> (case setMass newMass this of
      Inl e \<Rightarrow> False
    | Inr b \<Rightarrow> ThrustBoat.mass b = newMass \<and> inertia b = 2 * newMass / 3)"
  by (simp add: Forces_constructor_def setMass_def GRAVITY_ACCELERATION_def)

lemma ThrustBoat_update_unready:
  "ThrustBoat.boat this = None \<Longrightarrow> ThrustBoat_update deltaTime this = Inr this"
  by (simp add: ThrustBoat_update_def)

lemma WindBoat_update_unready:
  "WindBoat.boat this = None \<Longrightarrow> WindBoat_update windDirection sailAngle deltaTime this = this"
  by (simp add: WindBoat_update_def)

lemma checkCollision_unready:
  "ThrustBoat.boat this = None \<Longrightarrow> checkCollision this otherObject = Inl TypeError"
  by (simp add: checkCollision_def)

text \<open>
  C6. On a boat whose scene is not loaded yet, \<open>update\<close> returns at its guard and leaves
  the boat as it is (in both models, by the two lemmas above). \<open>checkCollision\<close> has no
  such guard: it reads \<open>this.boat.position\<close> first, which throws a TypeError on the boat
  that the constructor returns.
\<close>

theorem unready_checkCollision_throws:
  "ThrustBoat.boat ThrustBoat_constructor = None
   \<and> ThrustBoat_update deltaTime ThrustBoat_constructor = Inr ThrustBoat_constructor
   \<and> map_sum id (WindBoat_update windDirection sailAngle deltaTime) WindBoat_constructor
       = WindBoat_constructor
   \<and> checkCollision ThrustBoat_constructor scenario_B = Inl TypeError"
  by (simp add: ThrustBoat_update_def checkCollision_def ThrustBoat_constructor_def
      WindBoat_constructor_def Forces_constructor_def WindBoat_update_def)

section \<open>Collision\<close>

text \<open>
  What \<open>handleCollision\<close> leaves in the store: the positions as they were, and in the
  two velocities the following. When the bodies separate nothing is written. Otherwise the boat receives the impulse divided by its mass, and the other
  body loses the impulse divided by both masses: \<open>impulse\<close> is the object \<open>normal\<close>, and
  the first \<open>divideScalar\<close> has already divided it when the second one runs.
\<close>

lemma handleCollision_store_positions:
  "handleCollision_store ma mb h ThisPosition = h ThisPosition
   \<and> handleCollision_store ma mb h OtherPosition = h OtherPosition"
  by (simp add: handleCollision_store_def invoke_def Let_def)

lemma handleCollision_store_separating:
  assumes "dot (subVectors (h ThisVelocity) (h OtherVelocity))
             (normalize (subVectors (h ThisPosition) (h OtherPosition))) > 0"
  shows "handleCollision_store ma mb h ThisVelocity = h ThisVelocity"
    and "handleCollision_store ma mb h OtherVelocity = h OtherVelocity"
  using assms by (simp_all add: handleCollision_store_def invoke_def Let_def)

lemma handleCollision_store_impulse:
  assumes "\<not> dot (subVectors (h ThisVelocity) (h OtherVelocity))
             (normalize (subVectors (h ThisPosition) (h OtherPosition))) > 0"
  shows "handleCollision_store ma mb h ThisVelocity
           = add (h ThisVelocity)
               (divideScalar (impulse_spec 0.7 ma (h ThisPosition) (h ThisVelocity) mb (h OtherPosition) (h OtherVelocity)) ma)"
    and "handleCollision_store ma mb h OtherVelocity
           = sub (h OtherVelocity)
               (divideScalar (divideScalar (impulse_spec 0.7 ma (h ThisPosition) (h ThisVelocity) mb (h OtherPosition) (h OtherVelocity)) ma) mb)"
  using assms by (simp_all add: handleCollision_store_def invoke_def Let_def impulse_spec_def)

lemma handleCollision_separating:
  assumes "ThrustBoat.boat this = Some scene"
    and "ThrustBoat.velocity this = Some v"
    and "velocityAlongNormal scene v otherObject > 0"
  shows "handleCollision this otherObject = Inr (this, otherObject)"
  using assms
  by (simp add: handleCollision_def Let_def velocityAlongNormal_def collisionNormal_def
      handleCollision_store_separating)

lemma handleCollision_impulse:
  assumes "ThrustBoat.boat this = Some scene"
    and "ThrustBoat.velocity this = Some v"
    and "\<not> velocityAlongNormal scene v otherObject > 0"
  shows "handleCollision this otherObject =
           Inr (this\<lparr> ThrustBoat.velocity := Some (add v (divideScalar
                   (impulse_spec 0.7 (ThrustBoat.mass this) (position scene) v
                      (Sphere.mass otherObject) (position (object otherObject)) (Sphere.velocity otherObject))
                   (ThrustBoat.mass this))) \<rparr>,
                otherObject\<lparr> Sphere.velocity := sub (Sphere.velocity otherObject)
                   (divideScalar (divideScalar
                     (impulse_spec 0.7 (ThrustBoat.mass this) (position scene) v
                        (Sphere.mass otherObject) (position (object otherObject)) (Sphere.velocity otherObject))
                     (ThrustBoat.mass this)) (Sphere.mass otherObject)) \<rparr>)"
  using assms
  by (simp add: handleCollision_def Let_def velocityAlongNormal_def collisionNormal_def
      handleCollision_store_impulse)

lemma scenario_facts:
  "ThrustBoat.boat scenario_A = Some \<lparr> position = Vector3 0 0 150, rotation_y = 0 \<rparr>"
  "ThrustBoat.velocity scenario_A = Some (Vector3 0 0 (- 5))"
  "ThrustBoat.mass scenario_A = 500"
  "ThrustBoat.radius scenario_A = 5"
  "Sphere.mass scenario_B = 500"
  "Sphere.radius scenario_B = 20"
  "Sphere.velocity scenario_B = Vector3 0 0 0"
  "position (object scenario_B) = Vector3 0 0 100"
  by (simp_all add: scenario_A_def scenario_B_def ThrustBoat_onLoad_def
      ThrustBoat_constructor_def Sphere_constructor_def)

lemma scenario_normal:
  "collisionNormal \<lparr> position = Vector3 0 0 150, rotation_y = 0 \<rparr> scenario_B = Vector3 0 0 1"
  by (simp add: collisionNormal_def scenario_facts subVectors_def normalize_def length3_def
      divideScalar_def multiplyScalar_def)

lemma scenario_impulse:
  "impulse_spec 0.7 500 (Vector3 0 0 150) (Vector3 0 0 (- 5)) 500 (Vector3 0 0 100) (Vector3 0 0 0)
     = Vector3 0 0 2125"
  by (simp add: impulse_spec_def Let_def subVectors_def normalize_def length3_def
      divideScalar_def multiplyScalar_def dot_def)

lemma scenario_approaching:
  "\<not> velocityAlongNormal \<lparr> position = Vector3 0 0 150, rotation_y = 0 \<rparr> (Vector3 0 0 (- 5)) scenario_B > 0"
  by (simp add: velocityAlongNormal_def scenario_normal scenario_facts subVectors_def dot_def)

lemma scenario_code:
  "handleCollision scenario_A scenario_B
     = Inr (scenario_A\<lparr> ThrustBoat.velocity := Some (Vector3 0 0 (- 0.75)) \<rparr>,
            scenario_B\<lparr> Sphere.velocity := Vector3 0 0 (- 0.0085) \<rparr>)"
  by (simp add: handleCollision_impulse [OF scenario_facts(1) scenario_facts(2) scenario_approaching]
        scenario_facts scenario_impulse add_def sub_def divideScalar_def multiplyScalar_def)

lemma scenario_spec:
  "resolve_spec 0.7 500 (Vector3 0 0 150) (Vector3 0 0 (- 5)) 500 (Vector3 0 0 100) (Vector3 0 0 0)
     = (Vector3 0 0 (- 0.75), Vector3 0 0 (- 4.25))"
  by (simp add: resolve_spec_def Let_def scenario_impulse)
     (simp add: subVectors_def normalize_def length3_def
         divideScalar_def multiplyScalar_def dot_def add_def sub_def)

lemma scenario_checkCollision:
  "checkCollision scenario_A scenario_B
     = Inr (scenario_A\<lparr> collided := True, ThrustBoat.velocity := Some (Vector3 0 0 (- 0.75)) \<rparr>,
            scenario_B\<lparr> Sphere.velocity := Vector3 0 0 (- 0.0085) \<rparr>)"
proof -
  have f: "ThrustBoat.boat (scenario_A\<lparr> collided := True \<rparr>) = Some \<lparr> position = Vector3 0 0 150, rotation_y = 0 \<rparr>"
     "ThrustBoat.velocity (scenario_A\<lparr> collided := True \<rparr>) = Some (Vector3 0 0 (- 5))"
    by (simp_all add: scenario_facts)
  show ?thesis
    by (simp add: checkCollision_def scenario_facts distanceTo_def Let_def
      handleCollision_impulse [OF f scenario_approaching] scenario_impulse
      add_def sub_def divideScalar_def multiplyScalar_def)
qed

text \<open>
  C1. The specification's scenario: body A (mass 500, velocity \<open>(0, 0, -5)\<close>) meets body B
  (mass 500, at rest) head-on along the z axis, restitution 0.7. The formulas give the
  impulse scalar 2125 and the velocities \<open>(0, 0, -0.75)\<close> for A and \<open>(0, 0, -4.25)\<close> for B.
  \<open>handleCollision\<close> gives A that velocity, and B the velocity \<open>(0, 0, -0.0085)\<close>.
\<close>

theorem scenario_handleCollision:
  "handleCollision scenario_A scenario_B
     = Inr (scenario_A\<lparr> ThrustBoat.velocity := Some (Vector3 0 0 (- 0.75)) \<rparr>,
            scenario_B\<lparr> Sphere.velocity := Vector3 0 0 (- 0.0085) \<rparr>)
   \<and> resolve_spec 0.7 500 (Vector3 0 0 150) (Vector3 0 0 (- 5)) 500 (Vector3 0 0 100) (Vector3 0 0 0)
     = (Vector3 0 0 (- 0.75), Vector3 0 0 (- 4.25))"
  using scenario_code scenario_spec by simp

text \<open>
  The specification's \<open>resolve\<close> keeps the momentum of the pair along any direction.
\<close>

lemma resolve_spec_momentum:
  assumes "mass_a \<noteq> 0" and "mass_b \<noteq> 0"
  shows "momentumAlongNormal mass_a (fst (resolve_spec e mass_a pa va mass_b pb vb))
            mass_b (snd (resolve_spec e mass_a pa va mass_b pb vb)) n
         = momentumAlongNormal mass_a va mass_b vb n"
  using assms
  by (simp add: resolve_spec_def momentumAlongNormal_def Let_def add_def sub_def
      divideScalar_def multiplyScalar_def dot_def algebra_simps)

text \<open>
  C2. The momentum of the pair along the collision normal, before and after
  \<open>handleCollision\<close> on the scenario above: \<open>-2500\<close> before, \<open>-379.25\<close> after.
\<close>

theorem scenario_momentum:
  "momentumAlongNormal 500 (Vector3 0 0 (- 5)) 500 (Vector3 0 0 0) (Vector3 0 0 1) = - 2500
   \<and> handleCollision scenario_A scenario_B
     = Inr (scenario_A\<lparr> ThrustBoat.velocity := Some (Vector3 0 0 (- 0.75)) \<rparr>,
            scenario_B\<lparr> Sphere.velocity := Vector3 0 0 (- 0.0085) \<rparr>)
   \<and> momentumAlongNormal 500 (Vector3 0 0 (- 0.75)) 500 (Vector3 0 0 (- 0.0085)) (Vector3 0 0 1)
     = - 379.25"
  using scenario_code
  by (simp add: momentumAlongNormal_def add_def multiplyScalar_def dot_def)

text \<open>
  C9. When the relative velocity along the collision normal is positive,
  \<open>handleCollision\<close> returns before it writes anything: any number of calls leaves both
  bodies, and so both velocities, as they were.
\<close>

theorem handleCollision_times_separating:
  assumes "ThrustBoat.boat this = Some scene"
    and "ThrustBoat.velocity this = Some v"
    and "velocityAlongNormal scene v otherObject > 0"
  shows "handleCollision_times n this otherObject = Inr (this, otherObject)"
  by (induction n) (simp_all add: handleCollision_separating [OF assms])

lemma separating_facts:
  "ThrustBoat.boat scenario_separating = Some \<lparr> position = Vector3 0 0 150, rotation_y = 0 \<rparr>"
  "ThrustBoat.velocity scenario_separating = Some (Vector3 0 0 5)"
  by (simp_all add: scenario_separating_def scenario_facts)

theorem handleCollision_times_separating_witness:
  "ThrustBoat.boat scenario_separating = Some \<lparr> position = Vector3 0 0 150, rotation_y = 0 \<rparr>
   \<and> ThrustBoat.velocity scenario_separating = Some (Vector3 0 0 5)
   \<and> velocityAlongNormal \<lparr> position = Vector3 0 0 150, rotation_y = 0 \<rparr> (Vector3 0 0 5) scenario_B = 5
   \<and> handleCollision_times 3 scenario_separating scenario_B = Inr (scenario_separating, scenario_B)"
proof -
  have van: "velocityAlongNormal \<lparr> position = Vector3 0 0 150, rotation_y = 0 \<rparr> (Vector3 0 0 5) scenario_B = 5"
    by (simp add: velocityAlongNormal_def scenario_normal scenario_facts subVectors_def dot_def)
  then have pos: "velocityAlongNormal \<lparr> position = Vector3 0 0 150, rotation_y = 0 \<rparr> (Vector3 0 0 5) scenario_B > 0"
    by simp
  from handleCollision_times_separating [OF separating_facts(1) separating_facts(2) pos, of 3]
       separating_facts van
  show ?thesis by simp
qed

end
